theory Spec2Isabelle
  imports Complex_Main
begin

section \<open>Python values\<close>

text \<open>
  The spreadsheet reader hands every row to the script as dynamically typed cells. A cell
  is empty (\<open>NaN\<close> in a numeric or text column, \<open>NaT\<close> in a date column), an integer,
  a finite float, a string or a datetime. \<open>PyNone\<close> is Python's \<open>None\<close>, which the script
  itself puts into the property dictionary. Strings are lists of characters; a character
  stands for a code point below 256. Spreadsheet booleans are not modelled.
\<close>

record datetime =
  dt_year :: nat
  dt_month :: nat
  dt_day :: nat
  dt_hour :: nat
  dt_minute :: nat
  dt_second :: nat

datatype pyval =
    PyNone
  | NaN
  | NaT
  | PyInt int
  | PyFloat rat
  | PyStr string
  | PyDatetime datetime

datatype error = ValueError | TypeError | AttributeError | NameError | IndexError

text \<open>\<open>pd.isnull(v)\<close> on a scalar.\<close>

fun isnull :: "pyval \<Rightarrow> bool" where
  "isnull PyNone = True"
| "isnull NaN = True"
| "isnull NaT = True"
| "isnull (PyInt n) = False"
| "isnull (PyFloat q) = False"
| "isnull (PyStr s) = False"
| "isnull (PyDatetime d) = False"

text \<open>The truth value Python's \<open>if v:\<close> tests.\<close>

fun truthy :: "pyval \<Rightarrow> bool" where
  "truthy PyNone = False"
| "truthy NaN = True"
| "truthy NaT = True"
| "truthy (PyInt n) = (n \<noteq> 0)"
| "truthy (PyFloat q) = (q \<noteq> 0)"
| "truthy (PyStr s) = (s \<noteq> [])"
| "truthy (PyDatetime d) = True"

section \<open>String operations of the Python runtime\<close>

text \<open>White space as \<open>str.isspace\<close> sees it, on code points below 256.\<close>

definition is_space :: "char \<Rightarrow> bool" where
  "is_space c =
     (let n = (of_char c :: nat)
      in (9 \<le> n \<and> n \<le> 13) \<or> (28 \<le> n \<and> n \<le> 32) \<or> n = 133 \<or> n = 160)"

text \<open>\<open>s.startswith(p)\<close>\<close>

fun startswith :: "string \<Rightarrow> string \<Rightarrow> bool" where
  "startswith s [] = True"
| "startswith [] (p # ps) = False"
| "startswith (x # xs) (p # ps) = (x = p \<and> startswith xs ps)"

text \<open>\<open>sub in s\<close> on strings: \<open>sub\<close> occurs in \<open>s\<close> as a contiguous substring.\<close>

fun py_in :: "string \<Rightarrow> string \<Rightarrow> bool" where
  "py_in sub [] = (sub = [])"
| "py_in sub (x # xs) = (startswith (x # xs) sub \<or> py_in sub xs)"

text \<open>\<open>s.lstrip(c)\<close> for a single character \<open>c\<close>.\<close>

definition lstrip_char :: "char \<Rightarrow> string \<Rightarrow> string" where
  "lstrip_char c s = dropWhile (\<lambda>x. x = c) s"

text \<open>\<open>s.strip()\<close>: white space removed at both ends.\<close>

definition py_strip :: "string \<Rightarrow> string" where
  "py_strip s = rev (dropWhile is_space (rev (dropWhile is_space s)))"

text \<open>
  \<open>s.split(c)\<close> for a single-character separator: the fields between the separators,
  empty ones included; never the empty list.
\<close>

fun py_split :: "char \<Rightarrow> string \<Rightarrow> string list" where
  "py_split c [] = [[]]"
| "py_split c (x # xs) =
     (if x = c then [] # py_split c xs
      else (case py_split c xs of
              [] \<Rightarrow> [[x]]
            | y # ys \<Rightarrow> (x # y) # ys))"

text \<open>
  \<open>s.split()\<close> without a separator: the maximal runs of characters that are not white
  space. \<open>cur\<close> is the run being read.
\<close>

fun split_ws_from :: "string \<Rightarrow> string \<Rightarrow> string list" where
  "split_ws_from cur [] = (if cur = [] then [] else [cur])"
| "split_ws_from cur (x # xs) =
     (if is_space x
      then (if cur = [] then split_ws_from [] xs else cur # split_ws_from [] xs)
      else split_ws_from (cur @ [x]) xs)"

definition py_split_ws :: "string \<Rightarrow> string list" where
  "py_split_ws s = split_ws_from [] s"

text \<open>\<open>sep.join(xs)\<close>\<close>

fun py_join :: "string \<Rightarrow> string list \<Rightarrow> string" where
  "py_join sep [] = []"
| "py_join sep [x] = x"
| "py_join sep (x # y # ys) = x @ sep @ py_join sep (y # ys)"

text \<open>\<open>s.lower()\<close> on code points below 256.\<close>

definition lower_char :: "char \<Rightarrow> char" where
  "lower_char c =
     (let n = (of_char c :: nat)
      in if (65 \<le> n \<and> n \<le> 90) \<or> (192 \<le> n \<and> n \<le> 222 \<and> n \<noteq> 215)
         then char_of (n + 32) else c)"

definition py_lower :: "string \<Rightarrow> string" where
  "py_lower s = map lower_char s"

text \<open>Decimal digits and \<open>str(n)\<close> for an integer.\<close>

definition digit_char :: "nat \<Rightarrow> char" where
  "digit_char n = ''0123456789'' ! n"

fun str_nat :: "nat \<Rightarrow> string" where
  "str_nat n = (if n < 10 then [digit_char n] else str_nat (n div 10) @ [digit_char (n mod 10)])"

declare str_nat.simps [simp del]

definition str_int :: "int \<Rightarrow> string" where
  "str_int i = (if i < 0 then CHR ''-'' # str_nat (nat (- i)) else str_nat (nat i))"

definition pad2 :: "nat \<Rightarrow> string" where
  "pad2 n = [digit_char (n div 10 mod 10), digit_char (n mod 10)]"

definition pad4 :: "nat \<Rightarrow> string" where
  "pad4 n = [digit_char (n div 1000 mod 10), digit_char (n div 100 mod 10),
             digit_char (n div 10 mod 10), digit_char (n mod 10)]"

section \<open>Statements and the remote knowledge base\<close>

text \<open>
  A statement is built by one of the value classes of the Wikibase client library, from a
  value and a property number. The constructors are kept as data; the validation the
  library performs inside them is not part of the script.
\<close>

datatype statement =
    WDTime pyval string
  | WDItemID pyval string
  | WDString pyval string
  | WDExternalID pyval string
  | WDQuantity pyval string
  | WDUrl pyval string

fun prop_nr :: "statement \<Rightarrow> string" where
  "prop_nr (WDTime v p) = p"
| "prop_nr (WDItemID v p) = p"
| "prop_nr (WDString v p) = p"
| "prop_nr (WDExternalID v p) = p"
| "prop_nr (WDQuantity v p) = p"
| "prop_nr (WDUrl v p) = p"

text \<open>
  The remote calls the script makes through the client library, taken as parameters over
  an arbitrary remote state \<open>'r\<close>:
  \<^item> \<open>get_wd_search_results\<close>: the ids the label search returns;
  \<^item> \<open>write_new\<close>: a fresh item engine with no data, \<open>set_label(title)\<close>, then
    \<open>write(login)\<close>; it yields the new item's id;
  \<^item> \<open>write_item\<close>: an item engine for an existing id with the given statements, then
    \<open>write(login)\<close>.

  Every remote call is taken to return. A call that fails raises out of every function
  below; that path is not modelled.
\<close>

record 'r api =
  get_wd_search_results :: "'r \<Rightarrow> pyval \<Rightarrow> string list"
  write_new :: "'r \<Rightarrow> pyval \<Rightarrow> string \<times> 'r"
  write_item :: "'r \<Rightarrow> string \<Rightarrow> statement list \<Rightarrow> 'r"

datatype remote_call =
    Search pyval
  | WriteNew pyval
  | WriteItem string "statement list"

text \<open>
  The state the handler works on: its cache dictionary, the remote store, and the remote
  calls made so far, oldest first. Dictionary keys are compared as values, which is
  Python's comparison on strings.
\<close>

record 'r world =
  cache :: "pyval \<rightharpoonup> string"
  remote :: 'r
  calls :: "remote_call list"

section \<open>WikibaseHandler\<close>

definition RESEARCH_ARTICLE :: int where
  "RESEARCH_ARTICLE = 1"

definition AUTHOR :: int where
  "AUTHOR = 2"

definition add_research_article_statements :: "'r api \<Rightarrow> string \<Rightarrow> 'r world \<Rightarrow> 'r world" where
  "add_research_article_statements a item_id w =
     (let statements = [WDItemID (PyStr ''Q2'') ''20'']
      in w\<lparr>remote := write_item a (remote w) item_id statements,
            calls := calls w @ [WriteItem item_id statements]\<rparr>)"

definition add_author_statements :: "'r api \<Rightarrow> string \<Rightarrow> 'r world \<Rightarrow> 'r world" where
  "add_author_statements a item_id w =
     (let statements = [WDItemID (PyStr ''Q1'') ''20'']
      in w\<lparr>remote := write_item a (remote w) item_id statements,
            calls := calls w @ [WriteItem item_id statements]\<rparr>)"

definition get_or_create_item :: "'r api \<Rightarrow> pyval \<Rightarrow> int \<Rightarrow> 'r world \<Rightarrow> string \<times> 'r world" where
  "get_or_create_item a title item_type w =
     (case cache w title of
        Some cached \<Rightarrow> (cached, w)
      | None \<Rightarrow>
          (let item = get_wd_search_results a (remote w) title;
               w1 = w\<lparr>calls := calls w @ [Search title]\<rparr>
           in case item of
                first # _ \<Rightarrow> (first, w1)
              | [] \<Rightarrow>
                  (let (new_id, r) = write_new a (remote w1) title;
                       w2 = w1\<lparr>remote := r, calls := calls w1 @ [WriteNew title]\<rparr>;
                       w3 = (if item_type = RESEARCH_ARTICLE
                               then add_research_article_statements a new_id w2
                             else if item_type = AUTHOR
                               then add_author_statements a new_id w2
                             else w2)
                   in (new_id, w3\<lparr>cache := (cache w3)(title \<mapsto> new_id)\<rparr>))))"

section \<open>Library calls of the field transformer\<close>

text \<open>
  Two library calls are taken as parameters: \<open>urlparse(u).path\<close>, which is the path
  component of the URL or the \<open>ValueError\<close> the parser raises on a URL it rejects, and
  \<open>str(x)\<close> of a float.
\<close>

record lib =
  urlparse_path :: "string \<Rightarrow> error + string"
  float_str :: "rat \<Rightarrow> string"

text \<open>
  \<open>datetime.strptime(s, "%d-%m-%Y")\<close> and the two \<open>strftime\<close> calls of the script.
  In \<open>strptime\<close>, \<open>%d\<close> reads a day of one or two digits, zero-padded or not, or a space
  and one digit; \<open>%m\<close> a month of one or two digits; \<open>%Y\<close> exactly four digits; the
  whole string has to be consumed. The numbers have to be a date of the calendar, years
  running from 1 to 9999. \<open>strftime\<close> goes through the C library: on Linux it writes
  the day, the month and the time of day with two digits each and the year with the
  digits it has, without padding, so a year below 1000 has fewer than four.
\<close>

definition is_digit :: "char \<Rightarrow> bool" where
  "is_digit c = (48 \<le> (of_char c :: nat) \<and> (of_char c :: nat) \<le> 57)"

definition digit_val :: "char \<Rightarrow> nat" where
  "digit_val c = of_char c - 48"

fun parse_day :: "string \<Rightarrow> nat option" where
  "parse_day [a] = (if is_digit a \<and> a \<noteq> CHR ''0'' then Some (digit_val a) else None)"
| "parse_day [a, b] =
     (if a = CHR ''3'' \<and> (b = CHR ''0'' \<or> b = CHR ''1'') then Some (30 + digit_val b)
      else if (a = CHR ''1'' \<or> a = CHR ''2'') \<and> is_digit b then Some (10 * digit_val a + digit_val b)
      else if (a = CHR ''0'' \<or> a = CHR '' '') \<and> is_digit b \<and> b \<noteq> CHR ''0'' then Some (digit_val b)
      else None)"
| "parse_day s = None"

fun parse_month :: "string \<Rightarrow> nat option" where
  "parse_month [a] = (if is_digit a \<and> a \<noteq> CHR ''0'' then Some (digit_val a) else None)"
| "parse_month [a, b] =
     (if a = CHR ''1'' \<and> (b = CHR ''0'' \<or> b = CHR ''1'' \<or> b = CHR ''2'') then Some (10 + digit_val b)
      else if a = CHR ''0'' \<and> is_digit b \<and> b \<noteq> CHR ''0'' then Some (digit_val b)
      else None)"
| "parse_month s = None"

fun parse_year :: "string \<Rightarrow> nat option" where
  "parse_year [a, b, c, d] =
     (if is_digit a \<and> is_digit b \<and> is_digit c \<and> is_digit d
      then Some (1000 * digit_val a + 100 * digit_val b + 10 * digit_val c + digit_val d)
      else None)"
| "parse_year s = None"

definition is_leap :: "nat \<Rightarrow> bool" where
  "is_leap y = (y mod 4 = 0 \<and> (y mod 100 \<noteq> 0 \<or> y mod 400 = 0))"

definition days_in_month :: "nat \<Rightarrow> nat \<Rightarrow> nat" where
  "days_in_month y m =
     (if m = 2 then (if is_leap y then 29 else 28)
      else if m = 4 \<or> m = 6 \<or> m = 9 \<or> m = 11 then 30 else 31)"

definition valid_date :: "nat \<Rightarrow> nat \<Rightarrow> nat \<Rightarrow> bool" where
  "valid_date y m d =
     (1 \<le> y \<and> y \<le> 9999 \<and> 1 \<le> m \<and> m \<le> 12 \<and> 1 \<le> d \<and> d \<le> days_in_month y m)"

definition strptime_dmy :: "string \<Rightarrow> error + datetime" where
  "strptime_dmy s =
     (case py_split CHR ''-'' s of
        [ds, ms, ys] \<Rightarrow>
          (case (parse_day ds, parse_month ms, parse_year ys) of
             (Some d, Some m, Some y) \<Rightarrow>
               if valid_date y m d
               then Inr \<lparr>dt_year = y, dt_month = m, dt_day = d,
                         dt_hour = 0, dt_minute = 0, dt_second = 0\<rparr>
               else Inl ValueError
           | _ \<Rightarrow> Inl ValueError)
      | _ \<Rightarrow> Inl ValueError)"

text \<open>\<open>dt.strftime("%d-%m-%Y")\<close>\<close>

definition strftime_dmy :: "datetime \<Rightarrow> string" where
  "strftime_dmy dt = pad2 (dt_day dt) @ ''-'' @ pad2 (dt_month dt) @ ''-'' @ str_nat (dt_year dt)"

text \<open>\<open>dt.strftime("+%Y-%m-%dT%H:%M:%SZ")\<close>\<close>

definition strftime_iso :: "datetime \<Rightarrow> string" where
  "strftime_iso dt =
     ''+'' @ str_nat (dt_year dt) @ ''-'' @ pad2 (dt_month dt) @ ''-'' @ pad2 (dt_day dt)
       @ ''T'' @ pad2 (dt_hour dt) @ '':'' @ pad2 (dt_minute dt) @ '':'' @ pad2 (dt_second dt)
       @ ''Z''"

text \<open>\<open>str(v)\<close>\<close>

fun py_str :: "lib \<Rightarrow> pyval \<Rightarrow> string" where
  "py_str l PyNone = ''None''"
| "py_str l NaN = ''nan''"
| "py_str l NaT = ''NaT''"
| "py_str l (PyInt i) = str_int i"
| "py_str l (PyFloat q) = float_str l q"
| "py_str l (PyStr s) = s"
| "py_str l (PyDatetime dt) =
     pad4 (dt_year dt) @ ''-'' @ pad2 (dt_month dt) @ ''-'' @ pad2 (dt_day dt)
       @ '' '' @ pad2 (dt_hour dt) @ '':'' @ pad2 (dt_minute dt) @ '':'' @ pad2 (dt_second dt)"

text \<open>\<open>isinstance(v, int)\<close>\<close>

fun is_int :: "pyval \<Rightarrow> bool" where
  "is_int (PyInt i) = True"
| "is_int v = False"

section \<open>DataProcessor: the field transformer\<close>

text \<open>
  \<open>_format_date\<close>. \<open>NaT\<close> is an instance of \<open>datetime\<close> whose \<open>strftime\<close> raises
  \<open>ValueError\<close>; \<open>strptime\<close> raises \<open>TypeError\<close> on an argument that is not a string.
\<close>

fun format_date :: "pyval \<Rightarrow> error + string" where
  "format_date (PyDatetime dt) =
     (case strptime_dmy (strftime_dmy dt) of
        Inl e \<Rightarrow> Inl e
      | Inr parsed \<Rightarrow> Inr (strftime_iso parsed))"
| "format_date (PyStr s) =
     (case strptime_dmy s of
        Inl e \<Rightarrow> Inl e
      | Inr parsed \<Rightarrow> Inr (strftime_iso parsed))"
| "format_date NaT = Inl ValueError"
| "format_date v = Inl TypeError"

text \<open>
  \<open>_extract_doi\<close> and \<open>_process_url\<close>. The test \<open>"doi.org" in doi\<close> raises \<open>TypeError\<close> on a
  value that is not a string; an error of \<open>urlparse\<close> is not caught.
\<close>

fun extract_doi :: "lib \<Rightarrow> pyval \<Rightarrow> error + pyval" where
  "extract_doi l (PyStr doi) =
     (if py_in ''doi.org'' doi
      then (let doi1 = (if \<not> startswith doi ''http'' then ''https://'' @ doi else doi)
            in case urlparse_path l doi1 of
                 Inl e \<Rightarrow> Inl e
               | Inr path \<Rightarrow> Inr (PyStr (lstrip_char CHR ''/'' path)))
      else Inr PyNone)"
| "extract_doi l v = Inl TypeError"

fun process_url :: "pyval \<Rightarrow> error + pyval" where
  "process_url (PyStr url) = (if \<not> py_in ''doi.org'' url then Inr (PyStr url) else Inr PyNone)"
| "process_url v = Inl TypeError"

section \<open>DataProcessor: rows and statements\<close>

text \<open>A row of the spreadsheet: the columns the script reads, in the order of \<open>REQUIRED_FIELDS\<close>.\<close>

record row =
  Fecha_Publicacion :: pyval
  Categoria_Publicacion :: pyval
  Titulo :: pyval
  Autores :: pyval
  Fuente :: pyval
  Volumen :: pyval
  Numero :: pyval
  Pagina_Inicial :: pyval
  ISSN :: pyval
  DOI :: pyval
  Cuartil :: pyval
  Cuartil_criterio_IMFD :: pyval
  Red_Formal :: pyval
  Lineas_de_Investigacion :: pyval
  N_investigadores_asociados :: pyval
  N_investigadores_otra_categoria :: pyval
  N_estudiantes :: pyval

text \<open>\<open>row.isnull().all()\<close>\<close>

definition all_null :: "row \<Rightarrow> bool" where
  "all_null r =
     (isnull (Fecha_Publicacion r) \<and> isnull (Categoria_Publicacion r) \<and> isnull (Titulo r)
      \<and> isnull (Autores r) \<and> isnull (Fuente r) \<and> isnull (Volumen r) \<and> isnull (Numero r)
      \<and> isnull (Pagina_Inicial r) \<and> isnull (ISSN r) \<and> isnull (DOI r) \<and> isnull (Cuartil r)
      \<and> isnull (Cuartil_criterio_IMFD r) \<and> isnull (Red_Formal r)
      \<and> isnull (Lineas_de_Investigacion r) \<and> isnull (N_investigadores_asociados r)
      \<and> isnull (N_investigadores_otra_categoria r) \<and> isnull (N_estudiantes r))"

text \<open>The dictionary \<open>_gather_properties\<close> returns, one field for each of its keys.\<close>

record properties =
  P2 :: pyval
  P3 :: pyval
  P5 :: pyval
  P6 :: pyval
  P7 :: pyval
  P8 :: pyval
  P9 :: pyval
  P10 :: pyval
  P11 :: pyval
  P12 :: pyval
  P13 :: pyval
  P14 :: pyval
  P16 :: pyval
  P17 :: pyval
  P18 :: pyval
  P24 :: pyval

text \<open>
  \<open>get_or_create_item(v) if not pd.isnull(v) else None\<close>, with the default item type 0.
\<close>

definition item_or_none :: "'r api \<Rightarrow> pyval \<Rightarrow> 'r world \<Rightarrow> pyval \<times> 'r world" where
  "item_or_none a v w =
     (if \<not> isnull v
      then (let (i, w1) = get_or_create_item a v 0 w in (PyStr i, w1))
      else (PyNone, w))"

text \<open>\<open>_gather_properties\<close>: the entries are evaluated in the order they are written.\<close>

definition gather_properties ::
    "'r api \<Rightarrow> lib \<Rightarrow> row \<Rightarrow> pyval \<Rightarrow> pyval \<Rightarrow> pyval \<Rightarrow> 'r world \<Rightarrow> properties \<times> 'r world" where
  "gather_properties a l r publication_date doi_identifier related_url w =
     (let (p3, w1) = item_or_none a (Categoria_Publicacion r) w;
          (p5, w2) = item_or_none a (Fuente r) w1;
          (p14, w3) = item_or_none a (Red_Formal r) w2
      in (\<lparr>P2 = publication_date,
            P3 = p3,
            P5 = p5,
            P6 = (if \<not> isnull (Volumen r) then PyStr (py_str l (Volumen r)) else PyNone),
            P7 = (if \<not> isnull (Numero r) \<and> is_int (Numero r)
                  then PyStr (py_str l (Numero r)) else PyNone),
            P8 = Titulo r,
            P9 = (if \<not> isnull (Pagina_Inicial r) then PyStr (py_str l (Pagina_Inicial r)) else PyNone),
            P10 = (if \<not> isnull (ISSN r) then PyStr (py_str l (ISSN r)) else PyNone),
            P11 = doi_identifier,
            P12 = (if \<not> isnull (Cuartil r) then Cuartil r else PyNone),
            P13 = (if \<not> isnull (Cuartil_criterio_IMFD r) then Cuartil_criterio_IMFD r else PyNone),
            P14 = p14,
            P16 = (if \<not> isnull (N_investigadores_asociados r)
                   then N_investigadores_asociados r else PyNone),
            P17 = (if \<not> isnull (N_investigadores_otra_categoria r)
                   then N_investigadores_otra_categoria r else PyNone),
            P18 = (if \<not> isnull (N_estudiantes r) then N_estudiantes r else PyNone),
            P24 = related_url\<rparr>, w3))"

text \<open>
  The list comprehensions of \<open>_create_statements\<close>: each name is stripped and resolved, left
  to right, and becomes an item statement on the property \<open>p\<close>.
\<close>

fun item_id_statements ::
    "'r api \<Rightarrow> int \<Rightarrow> string \<Rightarrow> string list \<Rightarrow> 'r world \<Rightarrow> statement list \<times> 'r world" where
  "item_id_statements a item_type p [] w = ([], w)"
| "item_id_statements a item_type p (x # xs) w =
     (let (i, w1) = get_or_create_item a (PyStr (py_strip x)) item_type w;
          (others, w2) = item_id_statements a item_type p xs w1
      in (WDItemID (PyStr i) p # others, w2))"

text \<open>The sixteen guarded \<open>append\<close>s of \<open>_create_statements\<close>, in their order.\<close>

definition field_statements :: "properties \<Rightarrow> statement list" where
  "field_statements ps =
     (if truthy (P2 ps) then [WDTime (P2 ps) ''P2''] else [])
     @ (if truthy (P3 ps) then [WDItemID (P3 ps) ''P3''] else [])
     @ (if truthy (P5 ps) then [WDItemID (P5 ps) ''P5''] else [])
     @ (if truthy (P6 ps) then [WDString (P6 ps) ''P6''] else [])
     @ (if truthy (P7 ps) then [WDString (P7 ps) ''P7''] else [])
     @ (if truthy (P8 ps) then [WDString (P8 ps) ''P8''] else [])
     @ (if truthy (P9 ps) then [WDString (P9 ps) ''P9''] else [])
     @ (if truthy (P10 ps) then [WDExternalID (P10 ps) ''P10''] else [])
     @ (if truthy (P11 ps) then [WDExternalID (P11 ps) ''P11''] else [])
     @ (if truthy (P12 ps) then [WDString (P12 ps) ''P12''] else [])
     @ (if truthy (P13 ps) then [WDString (P13 ps) ''P13''] else [])
     @ (if truthy (P14 ps) then [WDItemID (P14 ps) ''P14''] else [])
     @ (if truthy (P16 ps) then [WDQuantity (P16 ps) ''P16''] else [])
     @ (if truthy (P17 ps) then [WDQuantity (P17 ps) ''P17''] else [])
     @ (if truthy (P18 ps) then [WDQuantity (P18 ps) ''P18''] else [])
     @ (if truthy (P24 ps) then [WDUrl (P24 ps) ''P24''] else [])"

text \<open>
  \<open>_create_statements\<close>. \<open>.split\<close> exists on strings only: on any other cell the attribute
  lookup raises \<open>AttributeError\<close>, for the research lines after the authors have been
  resolved.
\<close>

definition create_statements ::
    "'r api \<Rightarrow> properties \<Rightarrow> row \<Rightarrow> 'r world \<Rightarrow> (error + statement list) \<times> 'r world" where
  "create_statements a ps r w =
     (case Autores r of
        PyStr authors \<Rightarrow>
          (let (author_statements, w1) =
                 item_id_statements a AUTHOR ''P4'' (py_split CHR '','' authors) w
           in case Lineas_de_Investigacion r of
                PyStr research_lines \<Rightarrow>
                  (let (research_line_statements, w2) =
                         item_id_statements a 0 ''P15'' (py_split CHR '';'' research_lines) w1
                   in (Inr (author_statements @ research_line_statements @ field_statements ps), w2))
              | _ \<Rightarrow> (Inl AttributeError, w1))
      | _ \<Rightarrow> (Inl AttributeError, w))"

text \<open>\<open>_process_row\<close>\<close>

definition process_row :: "'r api \<Rightarrow> lib \<Rightarrow> row \<Rightarrow> 'r world \<Rightarrow> (error + unit) \<times> 'r world" where
  "process_row a l r w =
     (let title = Titulo r;
          (item_id, w1) = get_or_create_item a title RESEARCH_ARTICLE w
      in case format_date (Fecha_Publicacion r) of
           Inl e \<Rightarrow> (Inl e, w1)
         | Inr publication_date \<Rightarrow>
             (case (if \<not> isnull (DOI r) then extract_doi l (DOI r) else Inr PyNone) of
                Inl e \<Rightarrow> (Inl e, w1)
              | Inr doi_identifier \<Rightarrow>
                  (case (if \<not> isnull (DOI r) then process_url (DOI r) else Inr PyNone) of
                     Inl e \<Rightarrow> (Inl e, w1)
                   | Inr related_url \<Rightarrow>
                       (let (ps, w2) = gather_properties a l r (PyStr publication_date)
                                         doi_identifier related_url w1
                        in case create_statements a ps r w2 of
                             (Inl e, w3) \<Rightarrow> (Inl e, w3)
                           | (Inr item_statements, w3) \<Rightarrow>
                               (Inr (),
                                w3\<lparr>remote := write_item a (remote w3) item_id item_statements,
                                    calls := calls w3 @ [WriteItem item_id item_statements]\<rparr>)))))"

text \<open>
  The loop of \<open>process_data\<close> over the rows in file order; an exception of a row ends it.
\<close>

fun process_rows :: "'r api \<Rightarrow> lib \<Rightarrow> row list \<Rightarrow> 'r world \<Rightarrow> (error + unit) \<times> 'r world" where
  "process_rows a l [] w = (Inr (), w)"
| "process_rows a l (r # rs) w =
     (if all_null r then (Inr (), w)
      else (case process_row a l r w of
              (Inl e, w1) \<Rightarrow> (Inl e, w1)
            | (Inr u, w1) \<Rightarrow> process_rows a l rs w1))"

text \<open>
  \<open>process_data\<close>; \<open>response\<close> is the line read from the prompt. Console output and the
  clock are not modelled.
\<close>

definition process_data ::
    "'r api \<Rightarrow> lib \<Rightarrow> string \<Rightarrow> row list \<Rightarrow> 'r world \<Rightarrow> (error + unit) \<times> 'r world" where
  "process_data a l response rows w =
     (if py_lower (py_strip response) \<noteq> ''yes'' then (Inr (), w)
      else process_rows a l rows w)"

section \<open>The person search\<close>

text \<open>
  The text of the query that \<open>construct_query\<close> formats around the regular expression;
  \<open>{{\<close> and \<open>}}\<close> of the format string are single braces in the result.
\<close>

definition nl :: string where
  "nl = [CHR 0x0A]"

definition dq :: string where
  "dq = [CHR 0x22]"

definition query_text :: "string \<Rightarrow> string" where
  "query_text regex_pattern =
     nl @ ''    SELECT ?person ?personLabel WHERE {''
     @ nl @ ''      ?person wdt:P20 wd:Q1;''
     @ nl @ ''             rdfs:label ?personLabel.''
     @ nl
     @ nl @ ''      # Aplica un filtro REGEX para encontrar coincidencias flexibles''
     @ nl @ ''      FILTER (REGEX(?personLabel, '' @ dq @ regex_pattern @ dq @ '', '' @ dq @ ''i'' @ dq @ '')).''
     @ nl
     @ nl @ ''      # Esto asegurar'' @ [CHR 0xE1] @ '' que las etiquetas sean devueltas en el idioma preferido''
     @ nl @ ''      FILTER (LANG(?personLabel) = '' @ dq @ ''en'' @ dq @ '').''
     @ nl @ ''    }''
     @ nl @ ''    ''"

text \<open>
  \<open>construct_query\<close>. \<open>parts[0]\<close> and \<open>parts[-1]\<close> are read once the list is known to hold
  two tokens; \<open>first_name[0]\<close> raises \<open>IndexError\<close> on an empty string.
\<close>

definition construct_query :: "string \<Rightarrow> error + string" where
  "construct_query name =
     (let parts = py_split_ws name
      in if length parts < 2 then Inl ValueError
         else (let first_name = hd parts;
                   last_name = last parts
               in case first_name of
                    [] \<Rightarrow> Inl IndexError
                  | initial # _ \<Rightarrow>
                      (let patterns = [last_name @ '' '' @ [initial],
                                       [initial] @ ''. '' @ last_name,
                                       first_name @ '' '' @ last_name];
                           regex_pattern = py_join ''|'' patterns
                       in Inr (query_text regex_pattern))))"

text \<open>
  \<open>get_results\<close>. Its first statement reads \<open>sys.version_info\<close>, and the module does not
  import \<open>sys\<close>: the call raises \<open>NameError\<close> before the SPARQL client is built. The
  queries sent to the endpoint so far are the state; none is added.
\<close>

definition get_results :: "string \<Rightarrow> string \<Rightarrow> string list \<Rightarrow> (error + string list) \<times> string list" where
  "get_results endpoint query sent = (Inl NameError, sent)"

definition endpoint_url :: string where
  "endpoint_url = ''https://query.wikibase.imfd.cl/proxy/wdqs/bigdata/namespace/wdq/sparql''"

text \<open>\<open>search_person_by_name\<close>; the labels \<open>process_results\<close> prints are its result here.\<close>

definition search_person_by_name :: "string \<Rightarrow> string list \<Rightarrow> (error + string list) \<times> string list" where
  "search_person_by_name name sent =
     (case construct_query name of
        Inl e \<Rightarrow> (Inl e, sent)
      | Inr query \<Rightarrow> get_results endpoint_url query sent)"

section \<open>An in-memory store for running the model\<close>

text \<open>
  A remote store small enough to compute with: the items in creation order, each with its
  number, its label and the statements written to it. The id of item \<open>n\<close> is \<open>Qn\<close>. The
  search finds the items whose label is the search text; a new item gets the next free
  number.
\<close>

type_synonym store = "(nat \<times> pyval \<times> statement list) list"

definition qid :: "nat \<Rightarrow> string" where
  "qid n = CHR ''Q'' # str_nat n"

definition store_search :: "store \<Rightarrow> pyval \<Rightarrow> string list" where
  "store_search r title = map (\<lambda>(n, l, ss). qid n) (filter (\<lambda>(n, l, ss). l = title) r)"

definition store_new :: "store \<Rightarrow> pyval \<Rightarrow> string \<times> store" where
  "store_new r title = (let n = Suc (length r) in (qid n, r @ [(n, title, [])]))"

definition store_write :: "store \<Rightarrow> string \<Rightarrow> statement list \<Rightarrow> store" where
  "store_write r i stmts =
     map (\<lambda>(n, l, ss). if qid n = i then (n, l, ss @ stmts) else (n, l, ss)) r"

definition store_api :: "store api" where
  "store_api = \<lparr>get_wd_search_results = store_search, write_new = store_new,
                 write_item = store_write\<rparr>"

definition start :: "store \<Rightarrow> store world" where
  "start r = \<lparr>cache = Map.empty, remote = r, calls = []\<rparr>"

text \<open>
  The library parameters to run the model with. \<open>url_path\<close> is \<open>urlparse(u).path\<close> on
  a URL written \<open>scheme://host/path?query#fragment\<close>: the host runs from the two slashes
  to the next \<open>/\<close>, \<open>?\<close> or \<open>#\<close>; a host with a square bracket and not its partner makes
  the parser raise \<open>ValueError\<close> (\<open>Invalid IPv6 URL\<close>); the path is what follows the host, up
  to the first \<open>?\<close> or \<open>#\<close>. Every float is given a fixed text.
\<close>

definition url_path :: "string \<Rightarrow> error + string" where
  "url_path u =
     (let rest = drop 2 (dropWhile (\<lambda>c. c \<noteq> CHR ''/'') u);
          netloc = takeWhile (\<lambda>c. c \<noteq> CHR ''/'' \<and> c \<noteq> CHR ''?'' \<and> c \<noteq> CHR ''#'') rest;
          url = dropWhile (\<lambda>c. c \<noteq> CHR ''/'' \<and> c \<noteq> CHR ''?'' \<and> c \<noteq> CHR ''#'') rest
      in if (CHR ''['' \<in> set netloc \<and> CHR '']'' \<notin> set netloc)
            \<or> (CHR '']'' \<in> set netloc \<and> CHR ''['' \<notin> set netloc)
         then Inl ValueError
         else Inr (takeWhile (\<lambda>c. c \<noteq> CHR ''?'' \<and> c \<noteq> CHR ''#'') url))"

definition store_lib :: lib where
  "store_lib = \<lparr>urlparse_path = url_path, float_str = (\<lambda>q. ''0.0'')\<rparr>"

text \<open>Two rows to run the model on: a row with every cell empty, and an article.\<close>

definition empty_row :: row where
  "empty_row = \<lparr>Fecha_Publicacion = NaT, Categoria_Publicacion = NaN, Titulo = NaN,
     Autores = NaN, Fuente = NaN, Volumen = NaN, Numero = NaN, Pagina_Inicial = NaN,
     ISSN = NaN, DOI = NaN, Cuartil = NaN, Cuartil_criterio_IMFD = NaN, Red_Formal = NaN,
     Lineas_de_Investigacion = NaN, N_investigadores_asociados = NaN,
     N_investigadores_otra_categoria = NaN, N_estudiantes = NaN\<rparr>"

definition article_row :: row where
  "article_row = \<lparr>Fecha_Publicacion = PyStr ''15-03-2021'',
     Categoria_Publicacion = PyStr ''Journal'', Titulo = PyStr ''Graph queries'',
     Autores = PyStr ''Jane Doe, John Smith'', Fuente = NaN, Volumen = PyInt 3,
     Numero = PyInt 12, Pagina_Inicial = NaN, ISSN = PyStr ''1234-5678'',
     DOI = PyStr ''https://doi.org/10.1000/182'', Cuartil = PyStr ''Q1'',
     Cuartil_criterio_IMFD = NaN, Red_Formal = NaN,
     Lineas_de_Investigacion = PyStr ''Data; Graphs'', N_investigadores_asociados = PyInt 2,
     N_investigadores_otra_categoria = PyInt 0, N_estudiantes = NaN\<rparr>"

definition blank_properties :: properties where
  "blank_properties = \<lparr>P2 = PyNone, P3 = PyNone, P5 = PyNone, P6 = PyNone, P7 = PyNone,
     P8 = PyNone, P9 = PyNone, P10 = PyNone, P11 = PyNone, P12 = PyNone, P13 = PyNone,
     P14 = PyNone, P16 = PyNone, P17 = PyNone, P18 = PyNone, P24 = PyNone\<rparr>"

text \<open>The statements of a list that are on the property \<open>p\<close>, in their order.\<close>

definition statements_on :: "string \<Rightarrow> statement list \<Rightarrow> statement list" where
  "statements_on p stmts = filter (\<lambda>s. prop_nr s = p) stmts"







text \<open>
  Item ids are never the empty string: those in the cache, those a search returns and
  those of new items. A Wikibase id is \<open>Q\<close> and a number.
\<close>

definition ids_nonempty :: "'r api \<Rightarrow> 'r world \<Rightarrow> bool" where
  "ids_nonempty a w =
     ((\<forall>t i. cache w t = Some i \<longrightarrow> i \<noteq> [])
      \<and> (\<forall>s t i. i \<in> set (get_wd_search_results a s t) \<longrightarrow> i \<noteq> [])
      \<and> (\<forall>s t. fst (write_new a s t) \<noteq> []))"

section \<open>Facts about the string operations\<close>

lemma startswith_refl: "startswith s s"
  by (induction s) auto

lemma startswith_iff: "startswith s p \<longleftrightarrow> (\<exists>post. s = p @ post)"
  by (induction s p rule: startswith.induct) auto

text \<open>\<open>py_in\<close> is containment as a contiguous substring.\<close>

lemma py_in_iff: "py_in sub s \<longleftrightarrow> (\<exists>pre post. s = pre @ sub @ post)"
proof (induction s)
  case Nil
  then show ?case by auto
next
  case (Cons x xs)
  show ?case
  proof
    assume "py_in sub (x # xs)"
    then consider "startswith (x # xs) sub" | "py_in sub xs" by auto
    then show "\<exists>pre post. x # xs = pre @ sub @ post"
    proof cases
      case 1
      then obtain post where "x # xs = sub @ post" by (auto simp: startswith_iff)
      then have "x # xs = [] @ sub @ post" by simp
      then show ?thesis by blast
    next
      case 2
      then obtain pre post where "xs = pre @ sub @ post" using Cons.IH by auto
      then have "x # xs = (x # pre) @ sub @ post" by simp
      then show ?thesis by blast
    qed
  next
    assume "\<exists>pre post. x # xs = pre @ sub @ post"
    then obtain pre post where e: "x # xs = pre @ sub @ post" by auto
    show "py_in sub (x # xs)"
    proof (cases pre)
      case Nil
      then have "startswith (x # xs) sub" using e by (auto simp: startswith_iff)
      then show ?thesis by simp
    next
      case (Cons y ys)
      then have "xs = ys @ sub @ post" using e by simp
      then have "py_in sub xs" using Cons.IH by auto
      then show ?thesis by simp
    qed
  qed
qed

lemma split_ws_from_nonempty: "t \<in> set (split_ws_from cur s) \<Longrightarrow> t \<noteq> []"
  by (induction s arbitrary: cur) (auto split: if_splits)

section \<open>The entity resolver\<close>

lemma get_or_create_item_found:
  assumes "cache w title = None"
    and "get_wd_search_results a (remote w) title = first # others"
  shows "get_or_create_item a title item_type w = (first, w\<lparr>calls := calls w @ [Search title]\<rparr>)"
  using assms by (simp add: get_or_create_item_def)

text \<open>
  C6. A name that is a key of the cache resolves to the cached id; the cache, the remote
  store and the list of remote calls are what they were, so no search, creation or write
  has been made.
\<close>

theorem get_or_create_item_cached:
  assumes "cache w (PyStr name) = Some cached"
  shows "get_or_create_item a (PyStr name) item_type w = (cached, w)
         \<and> calls (snd (get_or_create_item a (PyStr name) item_type w)) = calls w
         \<and> remote (snd (get_or_create_item a (PyStr name) item_type w)) = remote w"
  using assms by (simp add: get_or_create_item_def)

theorem get_or_create_item_cached_witness:
  "get_or_create_item store_api (PyStr ''Ada'') AUTHOR
       ((start [])\<lparr>cache := [PyStr ''Ada'' \<mapsto> ''Q7'']\<rparr>)
     = (''Q7'', (start [])\<lparr>cache := [PyStr ''Ada'' \<mapsto> ''Q7'']\<rparr>)
   \<and> calls (snd (get_or_create_item store_api (PyStr ''Ada'') AUTHOR
       ((start [])\<lparr>cache := [PyStr ''Ada'' \<mapsto> ''Q7'']\<rparr>))) = []"
  using get_or_create_item_cached
    [of "(start [])\<lparr>cache := [PyStr ''Ada'' \<mapsto> ''Q7'']\<rparr>" "''Ada''" "''Q7''" store_api AUTHOR]
  by (simp add: start_def)

text \<open>
  C1. The name \<open>Ada\<close> is not in the cache and the remote search finds the item \<open>Q7\<close>
  under that label. The resolver returns \<open>Q7\<close>, makes the search and no other remote call,
  and leaves the remote store as it was; the cache still has no entry for \<open>Ada\<close>
  afterwards, where the path that creates an item stores the id it returns.
\<close>

theorem get_or_create_item_found_not_cached:
  "fst (get_or_create_item store_api (PyStr ''Ada'') AUTHOR (start [(7, PyStr ''Ada'', [])])) = ''Q7''
   \<and> calls (snd (get_or_create_item store_api (PyStr ''Ada'') AUTHOR (start [(7, PyStr ''Ada'', [])])))
       = [Search (PyStr ''Ada'')]
   \<and> remote (snd (get_or_create_item store_api (PyStr ''Ada'') AUTHOR (start [(7, PyStr ''Ada'', [])])))
       = [(7, PyStr ''Ada'', [])]
   \<and> cache (snd (get_or_create_item store_api (PyStr ''Ada'') AUTHOR (start [(7, PyStr ''Ada'', [])])))
       (PyStr ''Ada'') = None
   \<and> cache (snd (get_or_create_item store_api (PyStr ''Ada'') AUTHOR (start [])))
       (PyStr ''Ada'') = Some ''Q1''"
  by (simp add: get_or_create_item_def store_api_def start_def store_search_def store_new_def
      AUTHOR_def RESEARCH_ARTICLE_def add_author_statements_def store_write_def
      str_nat.simps digit_char_def Let_def qid_def)

section \<open>The DOI column\<close>

text \<open>
  C3, as amended. For a string that contains \<open>doi.org\<close>, \<open>_extract_doi\<close> hands the
  string, with \<open>https://\<close> put in front unless it starts with \<open>http\<close>, to \<open>urlparse\<close>:
  it raises the parser's error when the parser rejects the URL, and otherwise returns
  the path without its leading slashes; it never returns \<open>None\<close>. \<open>_process_url\<close> returns
  \<open>None\<close> for such a string. For a string that does not contain \<open>doi.org\<close>,
  \<open>_process_url\<close> returns the string itself and \<open>_extract_doi\<close> returns \<open>None\<close>. So one of
  the two is \<open>None\<close> on every string on which both return.
\<close>

theorem doi_id_or_url:
  "(py_in ''doi.org'' s \<longrightarrow>
      extract_doi l (PyStr s)
        = (case urlparse_path l (if startswith s ''http'' then s else ''https://'' @ s) of
             Inl e \<Rightarrow> Inl e
           | Inr path \<Rightarrow> Inr (PyStr (lstrip_char CHR ''/'' path)))
      \<and> extract_doi l (PyStr s) \<noteq> Inr PyNone
      \<and> process_url (PyStr s) = Inr PyNone)
   \<and> (\<not> py_in ''doi.org'' s \<longrightarrow>
        process_url (PyStr s) = Inr (PyStr s) \<and> extract_doi l (PyStr s) = Inr PyNone)
   \<and> (extract_doi l (PyStr s) = Inr PyNone \<or> process_url (PyStr s) = Inr PyNone)"
  by (simp add: Let_def split: sum.splits)

theorem doi_id_or_url_witness:
  "py_in ''doi.org'' ''doi.org/10.1000/182''
   \<and> extract_doi store_lib (PyStr ''doi.org/10.1000/182'') = Inr (PyStr ''10.1000/182'')
   \<and> process_url (PyStr ''doi.org/10.1000/182'') = Inr PyNone
   \<and> \<not> py_in ''doi.org'' ''https://example.org/a''
   \<and> process_url (PyStr ''https://example.org/a'') = Inr (PyStr ''https://example.org/a'')
   \<and> extract_doi store_lib (PyStr ''https://example.org/a'') = Inr PyNone"
  using doi_id_or_url [of "''doi.org/10.1000/182''" store_lib]
    doi_id_or_url [of "''https://example.org/a''" store_lib]
  by (simp add: store_lib_def url_path_def lstrip_char_def)

text \<open>
  C3 as stated fails. The string \<open>[doi.org/10.1000/182\<close> contains \<open>doi.org\<close>; with
  \<open>https://\<close> in front its host is \<open>[doi.org\<close>, which the URL parser rejects, and
  \<open>_extract_doi\<close> raises \<open>ValueError\<close> where the claim has it return a value.
\<close>

theorem extract_doi_raises_on_bracket:
  "py_in ''doi.org'' ''[doi.org/10.1000/182''
   \<and> extract_doi store_lib (PyStr ''[doi.org/10.1000/182'') = Inl ValueError"
  by (simp add: store_lib_def url_path_def)

section \<open>The person search\<close>

text \<open>
  C9. A name of fewer than two white-space separated tokens makes \<open>construct_query\<close>
  raise \<open>ValueError\<close>, and \<open>search_person_by_name\<close> raises it with the list of queries
  sent to the endpoint unchanged. A name of two tokens or more gives the query whose
  regular expression is \<open>Last F|F. Last|First Last\<close>: \<open>First\<close> the first token, \<open>Last\<close>
  the last one and \<open>F\<close> the first character of \<open>First\<close>.
\<close>

theorem construct_query_tokens:
  "(length (py_split_ws name) < 2 \<longrightarrow>
      construct_query name = Inl ValueError
      \<and> search_person_by_name name sent = (Inl ValueError, sent))
   \<and> (2 \<le> length (py_split_ws name) \<longrightarrow>
        (\<exists>initial letters.
           hd (py_split_ws name) = initial # letters
           \<and> construct_query name
               = Inr (query_text
                   (last (py_split_ws name) @ '' '' @ [initial] @ ''|''
                    @ [initial] @ ''. '' @ last (py_split_ws name) @ ''|''
                    @ hd (py_split_ws name) @ '' '' @ last (py_split_ws name)))))"
proof (intro conjI impI)
  assume "length (py_split_ws name) < 2"
  then show "construct_query name = Inl ValueError"
    by (simp add: construct_query_def)
  then show "search_person_by_name name sent = (Inl ValueError, sent)"
    by (simp add: search_person_by_name_def)
next
  assume two: "2 \<le> length (py_split_ws name)"
  then have "py_split_ws name \<noteq> []" by auto
  then have "hd (py_split_ws name) \<in> set (py_split_ws name)" by simp
  then have "hd (py_split_ws name) \<noteq> []"
    using split_ws_from_nonempty by (simp add: py_split_ws_def)
  then obtain initial letters where h: "hd (py_split_ws name) = initial # letters"
    by (cases "hd (py_split_ws name)") auto
  have "construct_query name
               = Inr (query_text
                   (last (py_split_ws name) @ '' '' @ [initial] @ ''|''
                    @ [initial] @ ''. '' @ last (py_split_ws name) @ ''|''
                    @ hd (py_split_ws name) @ '' '' @ last (py_split_ws name)))"
    using two h by (simp add: construct_query_def Let_def)
  with h show "\<exists>initial letters.
           hd (py_split_ws name) = initial # letters
           \<and> construct_query name
               = Inr (query_text
                   (last (py_split_ws name) @ '' '' @ [initial] @ ''|''
                    @ [initial] @ ''. '' @ last (py_split_ws name) @ ''|''
                    @ hd (py_split_ws name) @ '' '' @ last (py_split_ws name)))"
    by blast
qed

theorem construct_query_tokens_witness:
  "length (py_split_ws ''Lovelace'') < 2
   \<and> construct_query ''Lovelace'' = Inl ValueError
   \<and> search_person_by_name ''Lovelace'' [] = (Inl ValueError, [])
   \<and> 2 \<le> length (py_split_ws ''Ada King Lovelace'')
   \<and> construct_query ''Ada King Lovelace'' = Inr (query_text ''Lovelace A|A. Lovelace|Ada Lovelace'')"
  using construct_query_tokens [of "''Lovelace''" "[]"]
    construct_query_tokens [of "''Ada King Lovelace''" "[]"]
  by (simp add: py_split_ws_def is_space_def)

section \<open>The batch driver\<close>

lemma process_rows_stop:
  "all_null t \<Longrightarrow> process_rows a l (pre @ t # post) w = process_rows a l pre w"
  by (induction pre arbitrary: w) (auto split: prod.splits sum.splits)

text \<open>
  C8. Rows are processed in file order: a row that is not empty is processed, and the
  rows after it are processed in the state it leaves, unless it raised. The loop ends at
  the first row whose cells are all empty: a list of rows with such a row \<open>t\<close> in it
  gives what the rows before \<open>t\<close> give, so neither \<open>t\<close> nor a row after it is processed.
  Reaching \<open>t\<close> changes nothing: when \<open>t\<close> is the first row, the cache, the remote store
  and the list of remote calls are returned as they were.
\<close>

theorem process_data_stops_at_empty_row:
  assumes "all_null t"
  shows "process_data a l response (pre @ t # post) w = process_data a l response pre w
         \<and> process_data a l response (t # post) w = (Inr (), w)
         \<and> process_rows a l (pre @ t # post) w = process_rows a l pre w
         \<and> process_rows a l (t # post) w = (Inr (), w)
         \<and> (\<not> all_null r \<longrightarrow>
              process_rows a l (r # rs) w
                = (case process_row a l r w of
                     (Inl e, w1) \<Rightarrow> (Inl e, w1)
                   | (Inr u, w1) \<Rightarrow> process_rows a l rs w1))"
  using assms process_rows_stop [of t a l pre post w]
  by (simp add: process_data_def)

theorem process_data_stops_at_empty_row_witness:
  "all_null empty_row
   \<and> process_data store_api store_lib ''yes'' ([article_row] @ empty_row # [article_row]) (start [])
       = process_data store_api store_lib ''yes'' [article_row] (start [])
   \<and> process_data store_api store_lib ''yes'' (empty_row # [article_row]) (start []) = (Inr (), start [])
   \<and> \<not> all_null article_row"
  using process_data_stops_at_empty_row
    [of empty_row store_api store_lib "''yes''" "[article_row]" "[article_row]" "start []"]
  by (simp add: all_null_def empty_row_def article_row_def)

section \<open>Rows without authors or research lines\<close>

lemma create_statements_null:
  assumes "isnull (Autores r) \<or> isnull (Lineas_de_Investigacion r)"
  shows "\<exists>w'. create_statements a ps r w = (Inl AttributeError, w')"
  using assms
  by (cases "Autores r"; cases "Lineas_de_Investigacion r")
     (auto simp: create_statements_def Let_def split: prod.splits)

text \<open>
  C10. When the authors cell or the research-lines cell of a row is null,
  \<open>_create_statements\<close> raises \<open>AttributeError\<close> and returns no statement list, whatever
  the property dictionary and the state; \<open>_process_row\<close> on such a row ends in an error
  (that one, or an earlier one of the date or DOI cell). A null cell is not read as an
  empty list of names.
\<close>

theorem authors_and_lines_required:
  assumes "isnull (Autores r) \<or> isnull (Lineas_de_Investigacion r)"
  shows "(\<exists>w'. create_statements a ps r w = (Inl AttributeError, w'))
         \<and> (\<exists>e w'. process_row a l r w = (Inl e, w'))"
proof
  show "\<exists>w'. create_statements a ps r w = (Inl AttributeError, w')"
    using assms by (rule create_statements_null)
next
  have c: "\<And>ps w0. \<exists>w'. create_statements a ps r w0 = (Inl AttributeError, w')"
    using assms by (rule create_statements_null)
  obtain item_id w1 where g: "get_or_create_item a (Titulo r) RESEARCH_ARTICLE w = (item_id, w1)"
    by (cases "get_or_create_item a (Titulo r) RESEARCH_ARTICLE w") auto
  show "\<exists>e w'. process_row a l r w = (Inl e, w')"
  proof (cases "format_date (Fecha_Publicacion r)")
    case (Inl e)
    then show ?thesis using g by (simp add: process_row_def)
  next
    case date: (Inr publication_date)
    show ?thesis
    proof (cases "if \<not> isnull (DOI r) then extract_doi l (DOI r) else Inr PyNone")
      case (Inl e)
      then show ?thesis using g date by (simp add: process_row_def)
    next
      case doi: (Inr doi_identifier)
      show ?thesis
      proof (cases "if \<not> isnull (DOI r) then process_url (DOI r) else Inr PyNone")
        case (Inl e)
        then show ?thesis using g date doi by (simp add: process_row_def)
      next
        case url: (Inr related_url)
        obtain ps w2 where
          p: "gather_properties a l r (PyStr publication_date) doi_identifier related_url w1 = (ps, w2)"
          by (cases "gather_properties a l r (PyStr publication_date) doi_identifier related_url w1") auto
        obtain w3 where "create_statements a ps r w2 = (Inl AttributeError, w3)"
          using c by blast
        then show ?thesis using g date doi url p by (simp add: process_row_def)
      qed
    qed
  qed
qed

theorem authors_and_lines_required_witness:
  "(isnull (Autores (article_row\<lparr>Lineas_de_Investigacion := NaN\<rparr>))
      \<or> isnull (Lineas_de_Investigacion (article_row\<lparr>Lineas_de_Investigacion := NaN\<rparr>)))
   \<and> (\<exists>w'. create_statements store_api blank_properties (article_row\<lparr>Lineas_de_Investigacion := NaN\<rparr>) (start [])
             = (Inl AttributeError, w'))
   \<and> (\<exists>e w'. process_row store_api store_lib (article_row\<lparr>Lineas_de_Investigacion := NaN\<rparr>) (start [])
             = (Inl e, w'))"
  using authors_and_lines_required
    [of "article_row\<lparr>Lineas_de_Investigacion := NaN\<rparr>" store_api blank_properties "start []"
      store_lib]
  by simp

section \<open>The statement builder\<close>

lemma str_nat_nonempty: "str_nat n \<noteq> []"
  by (subst str_nat.simps) simp

lemma str_int_nonempty: "str_int i \<noteq> []"
  by (simp add: str_int_def str_nat_nonempty)

lemma item_id_statements_Cons:
  "item_id_statements a ty p (x # xs) w
     = (WDItemID (PyStr (fst (get_or_create_item a (PyStr (py_strip x)) ty w))) p
          # fst (item_id_statements a ty p xs (snd (get_or_create_item a (PyStr (py_strip x)) ty w))),
        snd (item_id_statements a ty p xs (snd (get_or_create_item a (PyStr (py_strip x)) ty w))))"
  by (simp add: Let_def case_prod_unfold)

lemma item_id_statements_length:
  "length (fst (item_id_statements a ty p xs w)) = length xs"
  by (induction xs arbitrary: w) (simp_all add: item_id_statements_Cons del: item_id_statements.simps(2))

lemma item_id_statements_prop_nr:
  "s \<in> set (fst (item_id_statements a ty p xs w)) \<Longrightarrow> prop_nr s = p"
  by (induction xs arbitrary: w) (auto simp: item_id_statements_Cons simp del: item_id_statements.simps(2))

lemma statements_on_item_id_statements:
  "statements_on q (fst (item_id_statements a ty p xs w))
     = (if q = p then fst (item_id_statements a ty p xs w) else [])"
  unfolding statements_on_def
  by (auto simp: filter_empty_conv filter_id_conv dest: item_id_statements_prop_nr)

lemma item_id_statements_world:
  "snd (item_id_statements a ty p xs w)
     = foldl (\<lambda>w x. snd (get_or_create_item a (PyStr (py_strip x)) ty w)) w xs"
  by (induction xs arbitrary: w) (simp_all add: item_id_statements_Cons del: item_id_statements.simps(2))

lemma item_id_statements_nth:
  "k < length xs \<Longrightarrow>
   fst (item_id_statements a ty p xs w) ! k
     = WDItemID (PyStr (fst (get_or_create_item a (PyStr (py_strip (xs ! k))) ty
          (foldl (\<lambda>w x. snd (get_or_create_item a (PyStr (py_strip x)) ty w)) w (take k xs))))) p"
proof (induction xs arbitrary: k w)
  case Nil
  then show ?case by simp
next
  case (Cons x xs)
  show ?case
  proof (cases k)
    case 0
    then show ?thesis by (simp add: item_id_statements_Cons del: item_id_statements.simps(2))
  next
    case (Suc j)
    then have "j < length xs" using Cons.prems by simp
    then show ?thesis using Suc Cons.IH [of j "snd (get_or_create_item a (PyStr (py_strip x)) ty w)"]
      by (simp add: item_id_statements_Cons del: item_id_statements.simps(2))
  qed
qed

lemma create_statements_Inr:
  assumes "create_statements a ps r w = (Inr stmts, w')"
  shows "\<exists>authors research_lines.
           Autores r = PyStr authors \<and> Lineas_de_Investigacion r = PyStr research_lines
           \<and> stmts = fst (item_id_statements a AUTHOR ''P4'' (py_split CHR '','' authors) w)
                @ fst (item_id_statements a 0 ''P15'' (py_split CHR '';'' research_lines)
                        (snd (item_id_statements a AUTHOR ''P4'' (py_split CHR '','' authors) w)))
                @ field_statements ps"
  using assms
  by (cases "Autores r"; cases "Lineas_de_Investigacion r")
     (auto simp: create_statements_def Let_def case_prod_unfold)

lemma create_statements_on:
  assumes "create_statements a ps r w = (Inr stmts, w')" and "p \<noteq> ''P4''" and "p \<noteq> ''P15''"
  shows "statements_on p stmts = statements_on p (field_statements ps)"
proof -
  obtain A B where "stmts = fst (item_id_statements a AUTHOR ''P4'' A w)
      @ fst (item_id_statements a 0 ''P15'' B (snd (item_id_statements a AUTHOR ''P4'' A w)))
      @ field_statements ps"
    using create_statements_Inr [OF assms(1)] by blast
  moreover have "\<And>xs ys zs. statements_on p (xs @ ys @ zs)
      = statements_on p xs @ statements_on p ys @ statements_on p zs"
    by (simp add: statements_on_def)
  ultimately show ?thesis
    using assms(2,3) by (simp add: statements_on_item_id_statements)
qed

lemma process_row_Inr:
  assumes "process_row a l r w = (Inr (), w')"
  shows "\<exists>item_id w1 pd doi url ps w2 stmts w3.
           get_or_create_item a (Titulo r) RESEARCH_ARTICLE w = (item_id, w1)
           \<and> format_date (Fecha_Publicacion r) = Inr pd
           \<and> (if \<not> isnull (DOI r) then extract_doi l (DOI r) else Inr PyNone) = Inr doi
           \<and> (if \<not> isnull (DOI r) then process_url (DOI r) else Inr PyNone) = Inr url
           \<and> gather_properties a l r (PyStr pd) doi url w1 = (ps, w2)
           \<and> create_statements a ps r w2 = (Inr stmts, w3)
           \<and> w' = w3\<lparr>remote := write_item a (remote w3) item_id stmts,
                      calls := calls w3 @ [WriteItem item_id stmts]\<rparr>"
proof -
  obtain item_id w1 where g: "get_or_create_item a (Titulo r) RESEARCH_ARTICLE w = (item_id, w1)"
    by (cases "get_or_create_item a (Titulo r) RESEARCH_ARTICLE w") auto
  show ?thesis
  proof (cases "format_date (Fecha_Publicacion r)")
    case (Inl e)
    then show ?thesis using g assms by (simp add: process_row_def)
  next
    case date: (Inr pd)
    show ?thesis
    proof (cases "if \<not> isnull (DOI r) then extract_doi l (DOI r) else Inr PyNone")
      case (Inl e)
      then show ?thesis using g date assms by (simp add: process_row_def)
    next
      case doi: (Inr doi_identifier)
      show ?thesis
      proof (cases "if \<not> isnull (DOI r) then process_url (DOI r) else Inr PyNone")
        case (Inl e)
        then show ?thesis using g date doi assms by (simp add: process_row_def)
      next
        case url: (Inr related_url)
        obtain ps w2 where
          p: "gather_properties a l r (PyStr pd) doi_identifier related_url w1 = (ps, w2)"
          by (cases "gather_properties a l r (PyStr pd) doi_identifier related_url w1") auto
        obtain res w3 where c: "create_statements a ps r w2 = (res, w3)"
          by (cases "create_statements a ps r w2") auto
        show ?thesis
        proof (cases res)
          case (Inl e)
          then show ?thesis using g date doi url p c assms by (simp add: process_row_def)
        next
          case (Inr stmts)
          then have "w' = w3\<lparr>remote := write_item a (remote w3) item_id stmts,
                      calls := calls w3 @ [WriteItem item_id stmts]\<rparr>"
            using g date doi url p c assms by (simp add: process_row_def)
          then show ?thesis using g date doi url p c Inr by blast
        qed
      qed
    qed
  qed
qed


lemma gather_properties_fields:
  assumes "gather_properties a l r pd doi url w = (ps, w')"
  shows "P2 ps = pd"
    and "P6 ps = (if \<not> isnull (Volumen r) then PyStr (py_str l (Volumen r)) else PyNone)"
    and "P7 ps = (if \<not> isnull (Numero r) \<and> is_int (Numero r)
                  then PyStr (py_str l (Numero r)) else PyNone)"
    and "P8 ps = Titulo r"
    and "P9 ps = (if \<not> isnull (Pagina_Inicial r) then PyStr (py_str l (Pagina_Inicial r)) else PyNone)"
    and "P10 ps = (if \<not> isnull (ISSN r) then PyStr (py_str l (ISSN r)) else PyNone)"
    and "P11 ps = doi"
    and "P12 ps = (if \<not> isnull (Cuartil r) then Cuartil r else PyNone)"
    and "P13 ps = (if \<not> isnull (Cuartil_criterio_IMFD r) then Cuartil_criterio_IMFD r else PyNone)"
    and "P16 ps = (if \<not> isnull (N_investigadores_asociados r)
                   then N_investigadores_asociados r else PyNone)"
    and "P17 ps = (if \<not> isnull (N_investigadores_otra_categoria r)
                   then N_investigadores_otra_categoria r else PyNone)"
    and "P18 ps = (if \<not> isnull (N_estudiantes r) then N_estudiantes r else PyNone)"
    and "P24 ps = url"
  using assms by (auto simp: gather_properties_def Let_def case_prod_unfold)

lemma statements_on_P7:
  "statements_on ''P7'' (field_statements ps)
     = (if truthy (P7 ps) then [WDString (P7 ps) ''P7''] else [])"
  by (simp add: statements_on_def field_statements_def)

lemma is_int_cases: "is_int v \<longleftrightarrow> (\<exists>n. v = PyInt n)"
  by (cases v) auto

lemma create_statements_succeeds:
  assumes "Autores r = PyStr authors" and "Lineas_de_Investigacion r = PyStr research_lines"
  shows "\<exists>stmts w'. create_statements a ps r w = (Inr stmts, w')"
  using assms by (simp add: create_statements_def Let_def case_prod_unfold)

text \<open>
  C7. Whatever the date, DOI and URL handed to \<open>_gather_properties\<close>: when
  \<open>_create_statements\<close> returns a statement list for the gathered properties, an
  issue-number cell holding the integer \<open>n\<close> gives exactly one statement on \<open>P7\<close>, the
  string statement of \<open>str(n)\<close>, and a cell that is not an integer (a string, a float, a
  date, a null) gives no statement on \<open>P7\<close>. So the integer 12 is emitted as the string
  statement \<open>12\<close> and the string \<open>12\<close> is omitted.
\<close>

theorem issue_number_only_integer:
  assumes "gather_properties a l r pd doi url w = (ps, w1)"
    and "create_statements a ps r w1 = (Inr stmts, w2)"
  shows "(\<forall>n. Numero r = PyInt n \<longrightarrow>
            statements_on ''P7'' stmts = [WDString (PyStr (str_int n)) ''P7''])
         \<and> (\<not> is_int (Numero r) \<longrightarrow> statements_on ''P7'' stmts = [])
         \<and> (Numero r = PyInt 12 \<longrightarrow> statements_on ''P7'' stmts = [WDString (PyStr ''12'') ''P7''])
         \<and> (Numero r = PyStr ''12'' \<longrightarrow> statements_on ''P7'' stmts = [])"
proof -
  have on: "statements_on ''P7'' stmts = statements_on ''P7'' (field_statements ps)"
    using assms(2) by (rule create_statements_on) simp_all
  have p7: "P7 ps = (if \<not> isnull (Numero r) \<and> is_int (Numero r)
                     then PyStr (py_str l (Numero r)) else PyNone)"
    using assms(1) by (rule gather_properties_fields)
  have int: "\<And>n. Numero r = PyInt n \<Longrightarrow>
      statements_on ''P7'' stmts = [WDString (PyStr (str_int n)) ''P7'']"
    by (simp add: on p7 statements_on_P7 str_int_nonempty)
  have other: "\<not> is_int (Numero r) \<Longrightarrow> statements_on ''P7'' stmts = []"
    by (simp add: on p7 statements_on_P7)
  have twelve: "str_int 12 = ''12''"
    by (simp add: str_int_def str_nat.simps digit_char_def)
  show ?thesis using int other twelve by auto
qed

theorem issue_number_only_integer_witness:
  "(\<exists>ps w1 stmts w2.
      gather_properties store_api store_lib article_row (PyStr ''+2021-03-15T00:00:00Z'')
          PyNone PyNone (start []) = (ps, w1)
      \<and> create_statements store_api ps article_row w1 = (Inr stmts, w2)
      \<and> Numero article_row = PyInt 12
      \<and> statements_on ''P7'' stmts = [WDString (PyStr ''12'') ''P7''])
   \<and> (\<exists>ps w1 stmts w2.
      gather_properties store_api store_lib (article_row\<lparr>Numero := PyStr ''12''\<rparr>)
          (PyStr ''+2021-03-15T00:00:00Z'') PyNone PyNone (start []) = (ps, w1)
      \<and> create_statements store_api ps (article_row\<lparr>Numero := PyStr ''12''\<rparr>) w1 = (Inr stmts, w2)
      \<and> \<not> is_int (Numero (article_row\<lparr>Numero := PyStr ''12''\<rparr>))
      \<and> statements_on ''P7'' stmts = [])"
proof
  obtain ps w1 where g: "gather_properties store_api store_lib article_row
      (PyStr ''+2021-03-15T00:00:00Z'') PyNone PyNone (start []) = (ps, w1)"
    by (cases "gather_properties store_api store_lib article_row
      (PyStr ''+2021-03-15T00:00:00Z'') PyNone PyNone (start [])") auto
  have au: "Autores article_row = PyStr ''Jane Doe, John Smith''"
    and li: "Lineas_de_Investigacion article_row = PyStr ''Data; Graphs''"
    by (simp_all add: article_row_def)
  obtain stmts w2 where c: "create_statements store_api ps article_row w1 = (Inr stmts, w2)"
    using create_statements_succeeds [OF au li] by blast
  have n: "Numero article_row = PyInt 12" by (simp add: article_row_def)
  have "statements_on ''P7'' stmts = [WDString (PyStr ''12'') ''P7'']"
    using issue_number_only_integer [OF g c] n by blast
  with g c n show "\<exists>ps w1 stmts w2.
      gather_properties store_api store_lib article_row (PyStr ''+2021-03-15T00:00:00Z'')
          PyNone PyNone (start []) = (ps, w1)
      \<and> create_statements store_api ps article_row w1 = (Inr stmts, w2)
      \<and> Numero article_row = PyInt 12
      \<and> statements_on ''P7'' stmts = [WDString (PyStr ''12'') ''P7'']"
    by blast
next
  let ?r = "article_row\<lparr>Numero := PyStr ''12''\<rparr>"
  obtain ps w1 where g: "gather_properties store_api store_lib ?r
      (PyStr ''+2021-03-15T00:00:00Z'') PyNone PyNone (start []) = (ps, w1)"
    by (cases "gather_properties store_api store_lib ?r
      (PyStr ''+2021-03-15T00:00:00Z'') PyNone PyNone (start [])") auto
  have au: "Autores ?r = PyStr ''Jane Doe, John Smith''"
    and li: "Lineas_de_Investigacion ?r = PyStr ''Data; Graphs''"
    by (simp_all add: article_row_def)
  obtain stmts w2 where c: "create_statements store_api ps ?r w1 = (Inr stmts, w2)"
    using create_statements_succeeds [OF au li] by blast
  have n: "\<not> is_int (Numero ?r)" by simp
  have "statements_on ''P7'' stmts = []"
    using issue_number_only_integer [OF g c] n by blast
  with g c n show "\<exists>ps w1 stmts w2.
      gather_properties store_api store_lib ?r (PyStr ''+2021-03-15T00:00:00Z'')
          PyNone PyNone (start []) = (ps, w1)
      \<and> create_statements store_api ps ?r w1 = (Inr stmts, w2)
      \<and> \<not> is_int (Numero ?r)
      \<and> statements_on ''P7'' stmts = []"
    by blast
qed

text \<open>
  C5. When \<open>_create_statements\<close> returns a statement list, the authors cell is a string,
  the list starts with one item statement on \<open>P4\<close> for each field of the cell split at
  its commas, these are all the statements on \<open>P4\<close>, and the statement at position \<open>k\<close>
  carries the id the resolver returns for the stripped field \<open>k\<close> with the item type
  \<open>AUTHOR\<close>, called in the state left by resolving the fields before it from left to
  right. Semicolons do not split: \<open>Jane Doe, John Smith\<close> gives the two names
  \<open>Jane Doe\<close> and \<open>John Smith\<close>, in that order.
\<close>

theorem author_statements_in_order:
  assumes "create_statements a ps r w = (Inr stmts, w')"
  shows "(\<exists>authors.
            Autores r = PyStr authors
            \<and> length (py_split CHR '','' authors) \<le> length stmts
            \<and> statements_on ''P4'' stmts = take (length (py_split CHR '','' authors)) stmts
            \<and> (\<forall>k. k < length (py_split CHR '','' authors) \<longrightarrow>
                 stmts ! k
                   = WDItemID
                       (PyStr (fst (get_or_create_item a
                          (PyStr (py_strip (py_split CHR '','' authors ! k))) AUTHOR
                          (foldl (\<lambda>w x. snd (get_or_create_item a (PyStr (py_strip x)) AUTHOR w)) w
                             (take k (py_split CHR '','' authors))))))
                       ''P4''))
         \<and> map py_strip (py_split CHR '','' ''Jane Doe, John Smith'') = [''Jane Doe'', ''John Smith'']
         \<and> py_split CHR '','' ''Smith, John; Doe, Jane'' = [''Smith'', '' John; Doe'', '' Jane'']"
proof -
  obtain authors research_lines where a: "Autores r = PyStr authors"
    and s: "stmts = fst (item_id_statements a AUTHOR ''P4'' (py_split CHR '','' authors) w)
                @ fst (item_id_statements a 0 ''P15'' (py_split CHR '';'' research_lines)
                        (snd (item_id_statements a AUTHOR ''P4'' (py_split CHR '','' authors) w)))
                @ field_statements ps"
    using create_statements_Inr [OF assms] by blast
  let ?names = "py_split CHR '','' authors"
  let ?A = "fst (item_id_statements a AUTHOR ''P4'' ?names w)"
  let ?B = "fst (item_id_statements a 0 ''P15'' (py_split CHR '';'' research_lines)
                        (snd (item_id_statements a AUTHOR ''P4'' ?names w)))"
  have len: "length ?A = length ?names" by (rule item_id_statements_length)
  have l: "length ?names \<le> length stmts" using s len by simp
  have tk: "take (length ?names) stmts = ?A" using s len by simp
  have f: "statements_on ''P4'' (field_statements ps) = []"
    by (simp add: statements_on_def field_statements_def)
  have "statements_on ''P4'' stmts
          = statements_on ''P4'' ?A @ statements_on ''P4'' ?B
              @ statements_on ''P4'' (field_statements ps)"
    using s by (simp add: statements_on_def)
  then have on: "statements_on ''P4'' stmts = ?A"
    by (simp add: statements_on_item_id_statements f)
  have nth: "\<And>k. k < length ?names \<Longrightarrow>
      stmts ! k = WDItemID
                       (PyStr (fst (get_or_create_item a
                          (PyStr (py_strip (?names ! k))) AUTHOR
                          (foldl (\<lambda>w x. snd (get_or_create_item a (PyStr (py_strip x)) AUTHOR w)) w
                             (take k ?names)))))
                       ''P4''"
  proof -
    fix k assume k: "k < length ?names"
    then have "stmts ! k = ?A ! k" using s len by (simp add: nth_append)
    then show "stmts ! k = WDItemID
                       (PyStr (fst (get_or_create_item a
                          (PyStr (py_strip (?names ! k))) AUTHOR
                          (foldl (\<lambda>w x. snd (get_or_create_item a (PyStr (py_strip x)) AUTHOR w)) w
                             (take k ?names)))))
                       ''P4''"
      using item_id_statements_nth [OF k] by simp
  qed
  have ex1: "map py_strip (py_split CHR '','' ''Jane Doe, John Smith'') = [''Jane Doe'', ''John Smith'']"
    by (simp add: py_strip_def is_space_def)
  have ex2: "py_split CHR '','' ''Smith, John; Doe, Jane'' = [''Smith'', '' John; Doe'', '' Jane'']"
    by simp
  show ?thesis using a l on tk nth ex1 ex2 by auto
qed


theorem author_statements_in_order_witness:
  "fst (create_statements store_api blank_properties article_row (start []))
     = Inr [WDItemID (PyStr ''Q1'') ''P4'', WDItemID (PyStr ''Q2'') ''P4'',
            WDItemID (PyStr ''Q3'') ''P15'', WDItemID (PyStr ''Q4'') ''P15'']
   \<and> Autores article_row = PyStr ''Jane Doe, John Smith''
   \<and> statements_on ''P4''
         [WDItemID (PyStr ''Q1'') ''P4'', WDItemID (PyStr ''Q2'') ''P4'',
          WDItemID (PyStr ''Q3'') ''P15'', WDItemID (PyStr ''Q4'') ''P15'']
       = [WDItemID (PyStr ''Q1'') ''P4'', WDItemID (PyStr ''Q2'') ''P4'']
   \<and> calls (snd (create_statements store_api blank_properties article_row (start [])))
       = [Search (PyStr ''Jane Doe''), WriteNew (PyStr ''Jane Doe''),
          WriteItem ''Q1'' [WDItemID (PyStr ''Q1'') ''20''],
          Search (PyStr ''John Smith''), WriteNew (PyStr ''John Smith''),
          WriteItem ''Q2'' [WDItemID (PyStr ''Q1'') ''20''],
          Search (PyStr ''Data''), WriteNew (PyStr ''Data''),
          Search (PyStr ''Graphs''), WriteNew (PyStr ''Graphs'')]"
proof -
  let ?L = "[WDItemID (PyStr ''Q1'') ''P4'', WDItemID (PyStr ''Q2'') ''P4'',
            WDItemID (PyStr ''Q3'') ''P15'', WDItemID (PyStr ''Q4'') ''P15'']"
  let ?c = "create_statements store_api blank_properties article_row (start [])"
  have e: "fst ?c = Inr ?L"
    by (simp add: create_statements_def article_row_def start_def store_api_def
        get_or_create_item_def store_search_def store_new_def store_write_def
        add_author_statements_def RESEARCH_ARTICLE_def AUTHOR_def Let_def str_nat.simps
        digit_char_def qid_def py_strip_def is_space_def field_statements_def
        blank_properties_def)
  have c: "calls (snd ?c)
       = [Search (PyStr ''Jane Doe''), WriteNew (PyStr ''Jane Doe''),
          WriteItem ''Q1'' [WDItemID (PyStr ''Q1'') ''20''],
          Search (PyStr ''John Smith''), WriteNew (PyStr ''John Smith''),
          WriteItem ''Q2'' [WDItemID (PyStr ''Q1'') ''20''],
          Search (PyStr ''Data''), WriteNew (PyStr ''Data''),
          Search (PyStr ''Graphs''), WriteNew (PyStr ''Graphs'')]"
    by (simp add: create_statements_def article_row_def start_def store_api_def
        get_or_create_item_def store_search_def store_new_def store_write_def
        add_author_statements_def RESEARCH_ARTICLE_def AUTHOR_def Let_def str_nat.simps
        digit_char_def qid_def py_strip_def is_space_def field_statements_def
        blank_properties_def)
  have h: "?c = (Inr ?L, snd ?c)"
    using e by (metis prod.collapse)
  have a: "Autores article_row = PyStr ''Jane Doe, John Smith''"
    by (simp add: article_row_def)
  have "statements_on ''P4'' ?L = take (length (py_split CHR '','' ''Jane Doe, John Smith'')) ?L"
    using author_statements_in_order [OF h] a by auto
  then have "statements_on ''P4'' ?L = [WDItemID (PyStr ''Q1'') ''P4'', WDItemID (PyStr ''Q2'') ''P4'']"
    by simp
  with e a c show ?thesis by blast
qed

section \<open>The publication date\<close>




















































section \<open>The statements of the scalar and reference fields\<close>

lemma statements_on_fields:
  "statements_on ''P2'' (field_statements ps) = (if truthy (P2 ps) then [WDTime (P2 ps) ''P2''] else [])"
  "statements_on ''P3'' (field_statements ps) = (if truthy (P3 ps) then [WDItemID (P3 ps) ''P3''] else [])"
  "statements_on ''P5'' (field_statements ps) = (if truthy (P5 ps) then [WDItemID (P5 ps) ''P5''] else [])"
  "statements_on ''P6'' (field_statements ps) = (if truthy (P6 ps) then [WDString (P6 ps) ''P6''] else [])"
  "statements_on ''P8'' (field_statements ps) = (if truthy (P8 ps) then [WDString (P8 ps) ''P8''] else [])"
  "statements_on ''P9'' (field_statements ps) = (if truthy (P9 ps) then [WDString (P9 ps) ''P9''] else [])"
  "statements_on ''P10'' (field_statements ps) = (if truthy (P10 ps) then [WDExternalID (P10 ps) ''P10''] else [])"
  "statements_on ''P11'' (field_statements ps) = (if truthy (P11 ps) then [WDExternalID (P11 ps) ''P11''] else [])"
  "statements_on ''P12'' (field_statements ps) = (if truthy (P12 ps) then [WDString (P12 ps) ''P12''] else [])"
  "statements_on ''P13'' (field_statements ps) = (if truthy (P13 ps) then [WDString (P13 ps) ''P13''] else [])"
  "statements_on ''P14'' (field_statements ps) = (if truthy (P14 ps) then [WDItemID (P14 ps) ''P14''] else [])"
  "statements_on ''P16'' (field_statements ps) = (if truthy (P16 ps) then [WDQuantity (P16 ps) ''P16''] else [])"
  "statements_on ''P17'' (field_statements ps) = (if truthy (P17 ps) then [WDQuantity (P17 ps) ''P17''] else [])"
  "statements_on ''P18'' (field_statements ps) = (if truthy (P18 ps) then [WDQuantity (P18 ps) ''P18''] else [])"
  "statements_on ''P24'' (field_statements ps) = (if truthy (P24 ps) then [WDUrl (P24 ps) ''P24''] else [])"
  by (simp_all add: statements_on_def field_statements_def)

lemma get_or_create_item_ids:
  assumes "ids_nonempty a w"
  shows "fst (get_or_create_item a t ty w) \<noteq> []"
    and "ids_nonempty a (snd (get_or_create_item a t ty w))"
proof -
  have c: "\<And>t i. cache w t = Some i \<Longrightarrow> i \<noteq> []"
    and s: "\<And>s t i. i \<in> set (get_wd_search_results a s t) \<Longrightarrow> i \<noteq> []"
    and n: "\<And>s t. fst (write_new a s t) \<noteq> []"
    using assms by (auto simp: ids_nonempty_def)
  show "fst (get_or_create_item a t ty w) \<noteq> []"
  proof (cases "cache w t")
    case (Some i)
    then show ?thesis using c by (simp add: get_or_create_item_def)
  next
    case None
    show ?thesis
    proof (cases "get_wd_search_results a (remote w) t")
      case Nil
      then show ?thesis using None n [of "remote w" t]
        by (simp add: get_or_create_item_def Let_def case_prod_unfold)
    next
      case (Cons i others)
      then have "i \<noteq> []" using s [of i "remote w" t] by simp
      then show ?thesis using None Cons by (simp add: get_or_create_item_def)
    qed
  qed
  show "ids_nonempty a (snd (get_or_create_item a t ty w))"
  proof (cases "cache w t")
    case (Some i)
    then show ?thesis using assms by (simp add: get_or_create_item_def)
  next
    case None
    show ?thesis
    proof (cases "get_wd_search_results a (remote w) t")
      case Nil
      then show ?thesis using None assms n [of "remote w" t]
        by (simp add: get_or_create_item_def Let_def case_prod_unfold ids_nonempty_def
            add_research_article_statements_def add_author_statements_def)
    next
      case (Cons i others)
      then show ?thesis using None assms by (simp add: get_or_create_item_def ids_nonempty_def)
    qed
  qed
qed

lemma item_or_none_ids:
  assumes "ids_nonempty a w"
  shows "ids_nonempty a (snd (item_or_none a v w))"
    and "isnull v \<Longrightarrow> fst (item_or_none a v w) = PyNone"
    and "\<not> isnull v \<Longrightarrow> \<exists>i. i \<noteq> [] \<and> fst (item_or_none a v w) = PyStr i"
  using get_or_create_item_ids [OF assms, of v 0] assms
  by (auto simp: item_or_none_def case_prod_unfold Let_def)

lemma gather_properties_items:
  assumes "gather_properties a l r pd doi url w = (ps, w')"
  shows "P3 ps = fst (item_or_none a (Categoria_Publicacion r) w)"
    and "P5 ps = fst (item_or_none a (Fuente r) (snd (item_or_none a (Categoria_Publicacion r) w)))"
    and "P14 ps = fst (item_or_none a (Red_Formal r)
            (snd (item_or_none a (Fuente r) (snd (item_or_none a (Categoria_Publicacion r) w)))))"
  using assms by (auto simp: gather_properties_def Let_def case_prod_unfold)

lemma item_statement_on:
  assumes "ids_nonempty a w0"
    and "statements_on p stmts = (if truthy v then [WDItemID v p] else [])"
    and "v = fst (item_or_none a c w0)"
  shows "isnull c \<longrightarrow> statements_on p stmts = []"
    and "\<not> isnull c \<longrightarrow> (\<exists>i. statements_on p stmts = [WDItemID (PyStr i) p])"
proof -
  show "isnull c \<longrightarrow> statements_on p stmts = []"
    using item_or_none_ids(2) [OF assms(1), of c] assms(2,3) by simp
  show "\<not> isnull c \<longrightarrow> (\<exists>i. statements_on p stmts = [WDItemID (PyStr i) p])"
  proof
    assume "\<not> isnull c"
    then obtain i where "i \<noteq> []" and "fst (item_or_none a c w0) = PyStr i"
      using item_or_none_ids(3) [OF assms(1)] by blast
    then have "statements_on p stmts = [WDItemID (PyStr i) p]"
      using assms(2,3) by simp
    then show "\<exists>i. statements_on p stmts = [WDItemID (PyStr i) p]" by blast
  qed
qed

text \<open>
  What the statement list written for a row holds, field by field, when \<open>_process_row\<close>
  ends without an error and the item ids are not empty:
  \<^item> exactly one time statement on \<open>P2\<close>, of the formatted publication date;
  \<^item> for category, venue and formal network (\<open>P3\<close>, \<open>P5\<close>, \<open>P14\<close>): exactly one item
    statement when the cell is not null, none when it is null;
  \<^item> for volume, start page and ISSN (\<open>P6\<close>, \<open>P9\<close>, \<open>P10\<close>): exactly one statement of the
    text of the cell when the cell is not null and its text is not empty, none otherwise;
  \<^item> for the issue number (\<open>P7\<close>): exactly one string statement when the cell is an
    integer, none otherwise;
  \<^item> for a title that is a string (\<open>P8\<close>): exactly one string statement when it is not
    empty, none when it is;
  \<^item> for the DOI id and the related URL (\<open>P11\<close>, \<open>P24\<close>): exactly one statement when
    \<open>_extract_doi\<close>, respectively \<open>_process_url\<close>, gave a value that counts as true, none
    otherwise;
  \<^item> for the two quartile fields (\<open>P12\<close>, \<open>P13\<close>) and the three counts (\<open>P16\<close>, \<open>P17\<close>,
    \<open>P18\<close>): none when the cell is null, exactly one statement of the cell when the cell
    is not null and counts as true.
\<close>

lemma row_field_statements:
  assumes "process_row a l r w = (Inr (), w')" and "ids_nonempty a w"
  shows "\<exists>item_id stmts pd doi url.
     last (calls w') = WriteItem item_id stmts
     \<and> format_date (Fecha_Publicacion r) = Inr pd
     \<and> (if \<not> isnull (DOI r) then extract_doi l (DOI r) else Inr PyNone) = Inr doi
     \<and> (if \<not> isnull (DOI r) then process_url (DOI r) else Inr PyNone) = Inr url
     \<and> statements_on ''P2'' stmts = [WDTime (PyStr pd) ''P2'']
     \<and> (isnull (Categoria_Publicacion r) \<longrightarrow> statements_on ''P3'' stmts = [])
     \<and> (\<not> isnull (Categoria_Publicacion r) \<longrightarrow>
          (\<exists>i. statements_on ''P3'' stmts = [WDItemID (PyStr i) ''P3'']))
     \<and> (isnull (Fuente r) \<longrightarrow> statements_on ''P5'' stmts = [])
     \<and> (\<not> isnull (Fuente r) \<longrightarrow> (\<exists>i. statements_on ''P5'' stmts = [WDItemID (PyStr i) ''P5'']))
     \<and> (isnull (Red_Formal r) \<longrightarrow> statements_on ''P14'' stmts = [])
     \<and> (\<not> isnull (Red_Formal r) \<longrightarrow> (\<exists>i. statements_on ''P14'' stmts = [WDItemID (PyStr i) ''P14'']))
     \<and> statements_on ''P6'' stmts
          = (if isnull (Volumen r) \<or> py_str l (Volumen r) = [] then []
             else [WDString (PyStr (py_str l (Volumen r))) ''P6''])
     \<and> statements_on ''P7'' stmts
          = (if is_int (Numero r) then [WDString (PyStr (py_str l (Numero r))) ''P7''] else [])
     \<and> (\<forall>t. Titulo r = PyStr t \<longrightarrow>
           statements_on ''P8'' stmts = (if t = [] then [] else [WDString (PyStr t) ''P8'']))
     \<and> statements_on ''P9'' stmts
          = (if isnull (Pagina_Inicial r) \<or> py_str l (Pagina_Inicial r) = [] then []
             else [WDString (PyStr (py_str l (Pagina_Inicial r))) ''P9''])
     \<and> statements_on ''P10'' stmts
          = (if isnull (ISSN r) \<or> py_str l (ISSN r) = [] then []
             else [WDExternalID (PyStr (py_str l (ISSN r))) ''P10''])
     \<and> statements_on ''P11'' stmts = (if truthy doi then [WDExternalID doi ''P11''] else [])
     \<and> statements_on ''P24'' stmts = (if truthy url then [WDUrl url ''P24''] else [])
     \<and> (isnull (Cuartil r) \<or> Cuartil r = PyStr [] \<longrightarrow> statements_on ''P12'' stmts = [])
     \<and> (\<not> isnull (Cuartil r) \<and> truthy (Cuartil r) \<longrightarrow>
          statements_on ''P12'' stmts = [WDString (Cuartil r) ''P12''])
     \<and> (isnull (Cuartil_criterio_IMFD r) \<or> Cuartil_criterio_IMFD r = PyStr [] \<longrightarrow>
          statements_on ''P13'' stmts = [])
     \<and> (\<not> isnull (Cuartil_criterio_IMFD r) \<and> truthy (Cuartil_criterio_IMFD r) \<longrightarrow>
          statements_on ''P13'' stmts = [WDString (Cuartil_criterio_IMFD r) ''P13''])
     \<and> (isnull (N_investigadores_asociados r) \<longrightarrow> statements_on ''P16'' stmts = [])
     \<and> (\<not> isnull (N_investigadores_asociados r) \<and> truthy (N_investigadores_asociados r) \<longrightarrow>
          statements_on ''P16'' stmts = [WDQuantity (N_investigadores_asociados r) ''P16''])
     \<and> (isnull (N_investigadores_otra_categoria r) \<longrightarrow> statements_on ''P17'' stmts = [])
     \<and> (\<not> isnull (N_investigadores_otra_categoria r) \<and> truthy (N_investigadores_otra_categoria r) \<longrightarrow>
          statements_on ''P17'' stmts = [WDQuantity (N_investigadores_otra_categoria r) ''P17''])
     \<and> (isnull (N_estudiantes r) \<longrightarrow> statements_on ''P18'' stmts = [])
     \<and> (\<not> isnull (N_estudiantes r) \<and> truthy (N_estudiantes r) \<longrightarrow>
          statements_on ''P18'' stmts = [WDQuantity (N_estudiantes r) ''P18''])"
proof -
  obtain item_id w1 pd doi url ps w2 stmts w3 where
    g: "get_or_create_item a (Titulo r) RESEARCH_ARTICLE w = (item_id, w1)"
    and date: "format_date (Fecha_Publicacion r) = Inr pd"
    and d: "(if \<not> isnull (DOI r) then extract_doi l (DOI r) else Inr PyNone) = Inr doi"
    and u: "(if \<not> isnull (DOI r) then process_url (DOI r) else Inr PyNone) = Inr url"
    and gp: "gather_properties a l r (PyStr pd) doi url w1 = (ps, w2)"
    and cs: "create_statements a ps r w2 = (Inr stmts, w3)"
    and w': "w' = w3\<lparr>remote := write_item a (remote w3) item_id stmts,
                      calls := calls w3 @ [WriteItem item_id stmts]\<rparr>"
    using process_row_Inr [OF assms(1)] by blast
  note f = gather_properties_fields [OF gp]
  note it = gather_properties_items [OF gp]
  have on: "\<And>p. p \<noteq> ''P4'' \<Longrightarrow> p \<noteq> ''P15'' \<Longrightarrow>
      statements_on p stmts = statements_on p (field_statements ps)"
    using cs by (rule create_statements_on)
  have i1: "ids_nonempty a w1"
    using get_or_create_item_ids(2) [OF assms(2), of "Titulo r" RESEARCH_ARTICLE] g by simp
  let ?w3 = "snd (item_or_none a (Categoria_Publicacion r) w1)"
  let ?w5 = "snd (item_or_none a (Fuente r) ?w3)"
  have i3: "ids_nonempty a ?w3" using i1 by (rule item_or_none_ids)
  have i5: "ids_nonempty a ?w5" using i3 by (rule item_or_none_ids)
  have pdne: "pd \<noteq> []"
  proof -
    obtain s parsed where "pd = strftime_iso parsed"
      using date by (cases "Fecha_Publicacion r") (auto split: sum.splits)
    then show ?thesis by (simp add: strftime_iso_def)
  qed
  have c0: "last (calls w') = WriteItem item_id stmts" using w' by simp
  have c2: "statements_on ''P2'' stmts = [WDTime (PyStr pd) ''P2'']"
    using on [of "''P2''"] pdne by (simp add: statements_on_fields f)
  have o3: "statements_on ''P3'' stmts = (if truthy (P3 ps) then [WDItemID (P3 ps) ''P3''] else [])"
    using on [of "''P3''"] by (simp add: statements_on_fields)
  have o5: "statements_on ''P5'' stmts = (if truthy (P5 ps) then [WDItemID (P5 ps) ''P5''] else [])"
    using on [of "''P5''"] by (simp add: statements_on_fields)
  have o14: "statements_on ''P14'' stmts = (if truthy (P14 ps) then [WDItemID (P14 ps) ''P14''] else [])"
    using on [of "''P14''"] by (simp add: statements_on_fields)
  note c3n = item_statement_on(1) [OF i1 o3 it(1)]
  note c3 = item_statement_on(2) [OF i1 o3 it(1)]
  note c5n = item_statement_on(1) [OF i3 o5 it(2)]
  note c5 = item_statement_on(2) [OF i3 o5 it(2)]
  note c14n = item_statement_on(1) [OF i5 o14 it(3)]
  note c14 = item_statement_on(2) [OF i5 o14 it(3)]
  have c6: "statements_on ''P6'' stmts
          = (if isnull (Volumen r) \<or> py_str l (Volumen r) = [] then []
             else [WDString (PyStr (py_str l (Volumen r))) ''P6''])"
    using on [of "''P6''"] by (simp add: statements_on_fields f)
  have c7: "statements_on ''P7'' stmts
          = (if is_int (Numero r) then [WDString (PyStr (py_str l (Numero r))) ''P7''] else [])"
    using on [of "''P7''"] by (auto simp: statements_on_P7 f is_int_cases str_int_nonempty)
  have c8: "\<forall>t. Titulo r = PyStr t \<longrightarrow>
           statements_on ''P8'' stmts = (if t = [] then [] else [WDString (PyStr t) ''P8''])"
    using on [of "''P8''"] by (simp add: statements_on_fields f)
  have c9: "statements_on ''P9'' stmts
          = (if isnull (Pagina_Inicial r) \<or> py_str l (Pagina_Inicial r) = [] then []
             else [WDString (PyStr (py_str l (Pagina_Inicial r))) ''P9''])"
    using on [of "''P9''"] by (simp add: statements_on_fields f)
  have c10: "statements_on ''P10'' stmts
          = (if isnull (ISSN r) \<or> py_str l (ISSN r) = [] then []
             else [WDExternalID (PyStr (py_str l (ISSN r))) ''P10''])"
    using on [of "''P10''"] by (simp add: statements_on_fields f)
  have c11: "statements_on ''P11'' stmts = (if truthy doi then [WDExternalID doi ''P11''] else [])"
    using on [of "''P11''"] by (simp add: statements_on_fields f)
  have c24: "statements_on ''P24'' stmts = (if truthy url then [WDUrl url ''P24''] else [])"
    using on [of "''P24''"] by (simp add: statements_on_fields f)
  have c12n: "isnull (Cuartil r) \<or> Cuartil r = PyStr [] \<longrightarrow> statements_on ''P12'' stmts = []"
    using on [of "''P12''"] by (auto simp: statements_on_fields f)
  have c12: "\<not> isnull (Cuartil r) \<and> truthy (Cuartil r) \<longrightarrow>
          statements_on ''P12'' stmts = [WDString (Cuartil r) ''P12'']"
    using on [of "''P12''"] by (simp add: statements_on_fields f)
  have c13n: "isnull (Cuartil_criterio_IMFD r) \<or> Cuartil_criterio_IMFD r = PyStr [] \<longrightarrow>
          statements_on ''P13'' stmts = []"
    using on [of "''P13''"] by (auto simp: statements_on_fields f)
  have c13: "\<not> isnull (Cuartil_criterio_IMFD r) \<and> truthy (Cuartil_criterio_IMFD r) \<longrightarrow>
          statements_on ''P13'' stmts = [WDString (Cuartil_criterio_IMFD r) ''P13'']"
    using on [of "''P13''"] by (simp add: statements_on_fields f)
  have c16n: "isnull (N_investigadores_asociados r) \<longrightarrow> statements_on ''P16'' stmts = []"
    using on [of "''P16''"] by (simp add: statements_on_fields f)
  have c16: "\<not> isnull (N_investigadores_asociados r) \<and> truthy (N_investigadores_asociados r) \<longrightarrow>
          statements_on ''P16'' stmts = [WDQuantity (N_investigadores_asociados r) ''P16'']"
    using on [of "''P16''"] by (simp add: statements_on_fields f)
  have c17n: "isnull (N_investigadores_otra_categoria r) \<longrightarrow> statements_on ''P17'' stmts = []"
    using on [of "''P17''"] by (simp add: statements_on_fields f)
  have c17: "\<not> isnull (N_investigadores_otra_categoria r) \<and> truthy (N_investigadores_otra_categoria r) \<longrightarrow>
          statements_on ''P17'' stmts = [WDQuantity (N_investigadores_otra_categoria r) ''P17'']"
    using on [of "''P17''"] by (simp add: statements_on_fields f)
  have c18n: "isnull (N_estudiantes r) \<longrightarrow> statements_on ''P18'' stmts = []"
    using on [of "''P18''"] by (simp add: statements_on_fields f)
  have c18: "\<not> isnull (N_estudiantes r) \<and> truthy (N_estudiantes r) \<longrightarrow>
          statements_on ''P18'' stmts = [WDQuantity (N_estudiantes r) ''P18'']"
    using on [of "''P18''"] by (simp add: statements_on_fields f)
  show ?thesis
    by (rule exI [of _ item_id], rule exI [of _ stmts], rule exI [of _ pd],
        rule exI [of _ doi], rule exI [of _ url])
       (intro conjI c0 date d u c2 c3n c3 c5n c5 c14n c14 c6 c7 c8 c9 c10 c11 c24
          c12n c12 c13n c13 c16n c16 c17n c17 c18n c18)
qed

lemma ids_nonempty_store: "ids_nonempty store_api (start r)"
  by (auto simp: ids_nonempty_def start_def store_api_def store_search_def store_new_def
      qid_def Let_def)

lemmas run_defs =
  process_row_def article_row_def start_def store_api_def store_lib_def
  get_or_create_item_def store_search_def store_new_def store_write_def
  add_research_article_statements_def add_author_statements_def
  RESEARCH_ARTICLE_def AUTHOR_def Let_def str_nat.simps digit_char_def qid_def
  strptime_dmy_def is_digit_def digit_val_def valid_date_def days_in_month_def is_leap_def
  url_path_def lstrip_char_def gather_properties_def item_or_none_def
  create_statements_def py_strip_def is_space_def field_statements_def
  strftime_iso_def pad2_def pad4_def str_int_def

lemma row_field_statements_article:
  "ids_nonempty store_api (start [])
   \<and> fst (process_row store_api store_lib article_row (start [])) = Inr ()
   \<and> (\<exists>item_id stmts.
         last (calls (snd (process_row store_api store_lib article_row (start []))))
           = WriteItem item_id stmts
         \<and> statements_on ''P2'' stmts = [WDTime (PyStr ''+2021-03-15T00:00:00Z'') ''P2'']
         \<and> (\<exists>i. statements_on ''P3'' stmts = [WDItemID (PyStr i) ''P3''])
         \<and> statements_on ''P5'' stmts = []
         \<and> statements_on ''P6'' stmts = [WDString (PyStr ''3'') ''P6'']
         \<and> statements_on ''P7'' stmts = [WDString (PyStr ''12'') ''P7'']
         \<and> statements_on ''P9'' stmts = []
         \<and> statements_on ''P12'' stmts = [WDString (PyStr ''Q1'') ''P12'']
         \<and> statements_on ''P16'' stmts = [WDQuantity (PyInt 2) ''P16'']
         \<and> statements_on ''P18'' stmts = [])"
proof -
  let ?run = "process_row store_api store_lib article_row (start [])"
  have ok: "fst ?run = Inr ()"
    by (simp add: run_defs)
  then have h: "?run = (Inr (), snd ?run)"
    by (metis prod.collapse)
  have i: "ids_nonempty store_api (start [])"
    by (rule ids_nonempty_store)
  have date: "format_date (Fecha_Publicacion article_row) = Inr ''+2021-03-15T00:00:00Z''"
    by (simp add: run_defs)
  have twelve: "str_int 12 = ''12''" and three: "str_int 3 = ''3''"
    by (simp_all add: str_int_def str_nat.simps digit_char_def)
  from row_field_statements [OF h i] show ?thesis
  proof (elim exE conjE)
    fix item_id stmts pd doi url
    assume a0: "last (calls (snd ?run)) = WriteItem item_id stmts"
      and ad: "format_date (Fecha_Publicacion article_row) = Inr pd"
      and a2: "statements_on ''P2'' stmts = [WDTime (PyStr pd) ''P2'']"
      and a3: "\<not> isnull (Categoria_Publicacion article_row) \<longrightarrow>
          (\<exists>i. statements_on ''P3'' stmts = [WDItemID (PyStr i) ''P3''])"
      and a5: "isnull (Fuente article_row) \<longrightarrow> statements_on ''P5'' stmts = []"
      and a6: "statements_on ''P6'' stmts
          = (if isnull (Volumen article_row) \<or> py_str store_lib (Volumen article_row) = [] then []
             else [WDString (PyStr (py_str store_lib (Volumen article_row))) ''P6''])"
      and a7: "statements_on ''P7'' stmts
          = (if is_int (Numero article_row)
             then [WDString (PyStr (py_str store_lib (Numero article_row))) ''P7''] else [])"
      and a9: "statements_on ''P9'' stmts
          = (if isnull (Pagina_Inicial article_row) \<or> py_str store_lib (Pagina_Inicial article_row) = []
             then [] else [WDString (PyStr (py_str store_lib (Pagina_Inicial article_row))) ''P9''])"
      and a12: "\<not> isnull (Cuartil article_row) \<and> truthy (Cuartil article_row) \<longrightarrow>
          statements_on ''P12'' stmts = [WDString (Cuartil article_row) ''P12'']"
      and a16: "\<not> isnull (N_investigadores_asociados article_row)
           \<and> truthy (N_investigadores_asociados article_row) \<longrightarrow>
          statements_on ''P16'' stmts = [WDQuantity (N_investigadores_asociados article_row) ''P16'']"
      and a18: "isnull (N_estudiantes article_row) \<longrightarrow> statements_on ''P18'' stmts = []"
    have pd: "pd = ''+2021-03-15T00:00:00Z''" using ad date by simp
    have b2: "statements_on ''P2'' stmts = [WDTime (PyStr ''+2021-03-15T00:00:00Z'') ''P2'']"
      using a2 pd by simp
    have b3: "\<exists>i. statements_on ''P3'' stmts = [WDItemID (PyStr i) ''P3'']"
      using a3 by (simp add: article_row_def)
    have b5: "statements_on ''P5'' stmts = []"
      using a5 by (simp add: article_row_def)
    have b6: "statements_on ''P6'' stmts = [WDString (PyStr ''3'') ''P6'']"
      using a6 three by (simp add: article_row_def)
    have b7: "statements_on ''P7'' stmts = [WDString (PyStr ''12'') ''P7'']"
      using a7 twelve by (simp add: article_row_def)
    have b9: "statements_on ''P9'' stmts = []"
      using a9 by (simp add: article_row_def)
    have b12: "statements_on ''P12'' stmts = [WDString (PyStr ''Q1'') ''P12'']"
      using a12 by (simp add: article_row_def)
    have b16: "statements_on ''P16'' stmts = [WDQuantity (PyInt 2) ''P16'']"
      using a16 by (simp add: article_row_def)
    have b18: "statements_on ''P18'' stmts = []"
      using a18 by (simp add: article_row_def)
    have "\<exists>item_id stmts.
         last (calls (snd ?run)) = WriteItem item_id stmts
         \<and> statements_on ''P2'' stmts = [WDTime (PyStr ''+2021-03-15T00:00:00Z'') ''P2'']
         \<and> (\<exists>i. statements_on ''P3'' stmts = [WDItemID (PyStr i) ''P3''])
         \<and> statements_on ''P5'' stmts = []
         \<and> statements_on ''P6'' stmts = [WDString (PyStr ''3'') ''P6'']
         \<and> statements_on ''P7'' stmts = [WDString (PyStr ''12'') ''P7'']
         \<and> statements_on ''P9'' stmts = []
         \<and> statements_on ''P12'' stmts = [WDString (PyStr ''Q1'') ''P12'']
         \<and> statements_on ''P16'' stmts = [WDQuantity (PyInt 2) ''P16'']
         \<and> statements_on ''P18'' stmts = []"
      by (rule exI [of _ item_id], rule exI [of _ stmts])
         (intro conjI a0 b2 b3 b5 b6 b7 b9 b12 b16 b18)
    then show ?thesis using ok i by (intro conjI)
  qed
qed

text \<open>
  C2. The count of researchers of another category is the integer 0 in the article row:
  the cell is present, the row is processed without an error, and the statement list
  written to its item has no statement on \<open>P17\<close>, while the count 2 of the associated
  researchers of the same row is emitted on \<open>P16\<close>. \<open>_gather_properties\<close> keeps the 0,
  which is not null; the guard of the \<open>append\<close> tests its truth value, and 0 counts as
  false.
\<close>

theorem zero_count_no_statement:
  "N_investigadores_otra_categoria article_row = PyInt 0
   \<and> \<not> isnull (N_investigadores_otra_categoria article_row)
   \<and> fst (process_row store_api store_lib article_row (start [])) = Inr ()
   \<and> last (calls (snd (process_row store_api store_lib article_row (start []))))
       = WriteItem ''Q1''
           [WDItemID (PyStr ''Q3'') ''P4'', WDItemID (PyStr ''Q4'') ''P4'',
            WDItemID (PyStr ''Q5'') ''P15'', WDItemID (PyStr ''Q6'') ''P15'',
            WDTime (PyStr ''+2021-03-15T00:00:00Z'') ''P2'',
            WDItemID (PyStr ''Q2'') ''P3'', WDString (PyStr ''3'') ''P6'',
            WDString (PyStr ''12'') ''P7'', WDString (PyStr ''Graph queries'') ''P8'',
            WDExternalID (PyStr ''1234-5678'') ''P10'',
            WDExternalID (PyStr ''10.1000/182'') ''P11'',
            WDString (PyStr ''Q1'') ''P12'', WDQuantity (PyInt 2) ''P16'']
   \<and> statements_on ''P17''
         [WDItemID (PyStr ''Q3'') ''P4'', WDItemID (PyStr ''Q4'') ''P4'',
          WDItemID (PyStr ''Q5'') ''P15'', WDItemID (PyStr ''Q6'') ''P15'',
          WDTime (PyStr ''+2021-03-15T00:00:00Z'') ''P2'',
          WDItemID (PyStr ''Q2'') ''P3'', WDString (PyStr ''3'') ''P6'',
          WDString (PyStr ''12'') ''P7'', WDString (PyStr ''Graph queries'') ''P8'',
          WDExternalID (PyStr ''1234-5678'') ''P10'',
          WDExternalID (PyStr ''10.1000/182'') ''P11'',
          WDString (PyStr ''Q1'') ''P12'', WDQuantity (PyInt 2) ''P16'']
       = []"
  by (simp add: run_defs statements_on_def)

end
